theory Spec2Isabelle
  imports Complex_Main
begin

section \<open>The image load manager (src/components/ui/verified-badge.tsx, class ImageLoadManager)\<close>

text \<open>
  The class has three private fields: the counter \<open>activeLoads\<close>, the bound
  \<open>maxConcurrent\<close> and the array \<open>queue\<close> of deferred callbacks. A callback
  is an opaque value of type \<open>'cb\<close>; JavaScript numbers that only count are integers.
\<close>

record 'cb ImageLoadManager =
  activeLoads :: int
  maxConcurrent :: int
  queue :: "'cb list"

text \<open>\<open>const loadManager = new ImageLoadManager()\<close>: the field initialisers.\<close>

definition loadManager :: "'cb ImageLoadManager" where
  "loadManager = \<lparr>activeLoads = 0, maxConcurrent = 4, queue = []\<rparr>"

text \<open>
  What a method hands to the outside: \<open>callback()\<close> runs the callback at once,
  \<open>setTimeout(next, Math.random() * 100)\<close> schedules it after a delay in milliseconds.
\<close>

datatype 'cb dispatch = Called 'cb | SetTimeout 'cb real

definition canLoad :: "'cb ImageLoadManager \<Rightarrow> bool" where
  "canLoad m = (activeLoads m < maxConcurrent m)"

definition startLoad :: "'cb \<Rightarrow> 'cb ImageLoadManager \<Rightarrow> 'cb dispatch list \<times> 'cb ImageLoadManager" where
  "startLoad callback m =
     (if canLoad m
      then ([Called callback], m\<lparr>activeLoads := activeLoads m + 1\<rparr>)
      else ([], m\<lparr>queue := queue m @ [callback]\<rparr>))"

text \<open>
  \<open>finishLoad\<close> takes the value \<open>rnd\<close> that \<open>Math.random()\<close> returns. The test
  \<open>if (next)\<close> of the source always succeeds on a non-empty queue, since every element
  of the queue is a function.
\<close>

definition finishLoad :: "real \<Rightarrow> 'cb ImageLoadManager \<Rightarrow> 'cb dispatch list \<times> 'cb ImageLoadManager" where
  "finishLoad rnd m =
     (let m1 = m\<lparr>activeLoads := activeLoads m - 1\<rparr> in
      case queue m1 of
        [] \<Rightarrow> ([], m1)
      | nxt # rest \<Rightarrow>
          ([SetTimeout nxt (rnd * 100)], m1\<lparr>queue := rest, activeLoads := activeLoads m1 + 1\<rparr>))"

subsection \<open>Sequences of calls\<close>

datatype 'cb manager_call = StartLoad 'cb | FinishLoad real

fun call :: "'cb manager_call \<Rightarrow> 'cb ImageLoadManager \<Rightarrow> 'cb dispatch list \<times> 'cb ImageLoadManager" where
  "call (StartLoad callback) m = startLoad callback m"
| "call (FinishLoad rnd) m = finishLoad rnd m"

fun calls :: "'cb manager_call list \<Rightarrow> 'cb ImageLoadManager \<Rightarrow> 'cb dispatch list \<times> 'cb ImageLoadManager" where
  "calls [] m = ([], m)"
| "calls (c # cs) m =
     (let (ds, m1) = call c m; (ds', m2) = calls cs m1 in (ds @ ds', m2))"

text \<open>
  The number of loads in flight, counted outside the manager: \<open>k\<close> loads are in flight
  before the calls, every dispatch (a callback run or scheduled) adds one, every
  \<open>finishLoad\<close> completes one.
\<close>

fun in_flight :: "nat \<Rightarrow> 'cb manager_call list \<Rightarrow> 'cb ImageLoadManager \<Rightarrow> nat" where
  "in_flight k [] m = k"
| "in_flight k (StartLoad callback # cs) m =
     in_flight (k + length (fst (startLoad callback m))) cs (snd (startLoad callback m))"
| "in_flight k (FinishLoad rnd # cs) m =
     in_flight (k - 1 + length (fst (finishLoad rnd m))) cs (snd (finishLoad rnd m))"

text \<open>
  The discipline of the callers: \<open>finishLoad\<close> is only called to complete a load that
  was dispatched and has not finished yet.
\<close>

fun completes_dispatched :: "nat \<Rightarrow> 'cb manager_call list \<Rightarrow> 'cb ImageLoadManager \<Rightarrow> bool" where
  "completes_dispatched k [] m = True"
| "completes_dispatched k (StartLoad callback # cs) m =
     completes_dispatched (k + length (fst (startLoad callback m))) cs (snd (startLoad callback m))"
| "completes_dispatched k (FinishLoad rnd # cs) m =
     (0 < k \<and>
      completes_dispatched (k - 1 + length (fst (finishLoad rnd m))) cs (snd (finishLoad rnd m)))"

text \<open>The callbacks that a sequence of calls pushes on the queue, in the order of the pushes.\<close>

fun pushed :: "'cb manager_call list \<Rightarrow> 'cb ImageLoadManager \<Rightarrow> 'cb list" where
  "pushed [] m = []"
| "pushed (StartLoad callback # cs) m =
     (if canLoad m then [] else [callback]) @ pushed cs (snd (startLoad callback m))"
| "pushed (FinishLoad rnd # cs) m = pushed cs (snd (finishLoad rnd m))"

text \<open>The callbacks taken off the queue and scheduled, in the order of the \<open>setTimeout\<close> calls.\<close>

fun scheduled :: "'cb dispatch list \<Rightarrow> 'cb list" where
  "scheduled [] = []"
| "scheduled (Called callback # ds) = scheduled ds"
| "scheduled (SetTimeout callback delay # ds) = callback # scheduled ds"

subsection \<open>The counter and the loads in flight\<close>

lemma startLoad_maxConcurrent: "maxConcurrent (snd (startLoad callback m)) = maxConcurrent m"
  by (simp add: startLoad_def)

lemma finishLoad_maxConcurrent: "maxConcurrent (snd (finishLoad rnd m)) = maxConcurrent m"
  by (simp add: finishLoad_def Let_def split: list.split)

lemma calls_Cons_snd: "snd (calls (c # cs) m) = snd (calls cs (snd (call c m)))"
  by (simp add: split_beta Let_def)

lemma calls_Cons_fst: "fst (calls (c # cs) m) = fst (call c m) @ fst (calls cs (snd (call c m)))"
  by (simp add: split_beta Let_def)

lemma startLoad_counter:
  assumes "activeLoads m = int k" "maxConcurrent m = 4" "k \<le> 4"
  shows "activeLoads (snd (startLoad callback m)) = int (k + length (fst (startLoad callback m)))
         \<and> k + length (fst (startLoad callback m)) \<le> 4"
  using assms by (simp add: startLoad_def canLoad_def)

lemma finishLoad_counter:
  assumes "activeLoads m = int k" "0 < k" "k \<le> 4"
  shows "activeLoads (snd (finishLoad rnd m)) = int (k - 1 + length (fst (finishLoad rnd m)))
         \<and> k - 1 + length (fst (finishLoad rnd m)) \<le> 4"
  using assms by (auto simp: finishLoad_def Let_def split: list.split)

lemma counter_is_in_flight:
  "completes_dispatched k cs m \<Longrightarrow> activeLoads m = int k \<Longrightarrow> maxConcurrent m = 4 \<Longrightarrow> k \<le> 4 \<Longrightarrow>
   activeLoads (snd (calls cs m)) = int (in_flight k cs m) \<and> in_flight k cs m \<le> 4
   \<and> maxConcurrent (snd (calls cs m)) = 4"
proof (induction cs arbitrary: k m)
  case Nil
  then show ?case by simp
next
  case (Cons c cs)
  show ?case
  proof (cases c)
    case (StartLoad callback)
    from Cons.prems StartLoad
    have d: "completes_dispatched (k + length (fst (startLoad callback m))) cs (snd (startLoad callback m))"
      by simp
    from startLoad_counter [OF Cons.prems(2) Cons.prems(3) Cons.prems(4), of callback]
    have a: "activeLoads (snd (startLoad callback m)) = int (k + length (fst (startLoad callback m)))"
      and b: "k + length (fst (startLoad callback m)) \<le> 4" by simp_all
    have mc: "maxConcurrent (snd (startLoad callback m)) = 4"
      using Cons.prems(3) by (simp add: startLoad_maxConcurrent)
    from Cons.IH [OF d a mc b] StartLoad show ?thesis
      by (simp add: calls_Cons_snd del: calls.simps)
  next
    case (FinishLoad rnd)
    from Cons.prems(1)
    have pos: "0 < k"
      and d: "completes_dispatched (k - 1 + length (fst (finishLoad rnd m))) cs (snd (finishLoad rnd m))"
      unfolding FinishLoad by (simp_all only: completes_dispatched.simps)
    from finishLoad_counter [OF Cons.prems(2) pos Cons.prems(4), of rnd]
    have a: "activeLoads (snd (finishLoad rnd m)) = int (k - 1 + length (fst (finishLoad rnd m)))"
      and b: "k - 1 + length (fst (finishLoad rnd m)) \<le> 4" by simp_all
    have mc: "maxConcurrent (snd (finishLoad rnd m)) = 4"
      using Cons.prems(3) by (simp add: finishLoad_maxConcurrent)
    from Cons.IH [OF d a mc b] FinishLoad show ?thesis
      by (simp add: calls_Cons_snd del: calls.simps)
  qed
qed

lemma completes_dispatched_take:
  "completes_dispatched k cs m \<Longrightarrow> completes_dispatched k (take n cs) m"
proof (induction cs arbitrary: k m n)
  case Nil
  then show ?case by simp
next
  case (Cons c cs)
  then show ?case by (cases n; cases c) auto
qed

text \<open>
  Claim C1. Starting from the fresh manager, take any sequence of \<open>startLoad\<close> and
  \<open>finishLoad\<close> calls in which every \<open>finishLoad\<close> completes a load that is in flight.
  After every prefix of the sequence the counter \<open>activeLoads\<close> equals the number of loads
  in flight, and that number is at most \<open>maxConcurrent = 4\<close>. A \<open>startLoad\<close> that arrives
  while four loads are in flight runs nothing and appends its callback to the queue.
\<close>

theorem load_manager_bounds_concurrency:
  assumes "completes_dispatched 0 cs (loadManager :: 'cb ImageLoadManager)"
  shows "(\<forall>n. activeLoads (snd (calls (take n cs) (loadManager :: 'cb ImageLoadManager)))
               = int (in_flight 0 (take n cs) (loadManager :: 'cb ImageLoadManager))
            \<and> in_flight 0 (take n cs) (loadManager :: 'cb ImageLoadManager) \<le> 4
            \<and> activeLoads (snd (calls (take n cs) (loadManager :: 'cb ImageLoadManager))) \<le> 4)
       \<and> (in_flight 0 cs (loadManager :: 'cb ImageLoadManager) = 4 \<longrightarrow>
            startLoad callback (snd (calls cs loadManager))
              = ([], (snd (calls cs loadManager))\<lparr>queue := queue (snd (calls cs loadManager)) @ [callback]\<rparr>))"
proof -
  have init: "activeLoads (loadManager :: 'cb ImageLoadManager) = int 0"
    "maxConcurrent (loadManager :: 'cb ImageLoadManager) = 4" "(0::nat) \<le> 4"
    by (simp_all add: loadManager_def)
  have pre: "\<And>n. activeLoads (snd (calls (take n cs) (loadManager :: 'cb ImageLoadManager)))
               = int (in_flight 0 (take n cs) (loadManager :: 'cb ImageLoadManager))
            \<and> in_flight 0 (take n cs) (loadManager :: 'cb ImageLoadManager) \<le> 4
            \<and> maxConcurrent (snd (calls (take n cs) (loadManager :: 'cb ImageLoadManager))) = 4"
    using counter_is_in_flight [OF completes_dispatched_take [OF assms] init] by blast
  have whole: "activeLoads (snd (calls cs (loadManager :: 'cb ImageLoadManager)))
               = int (in_flight 0 cs (loadManager :: 'cb ImageLoadManager))
            \<and> maxConcurrent (snd (calls cs (loadManager :: 'cb ImageLoadManager))) = 4"
    using counter_is_in_flight [OF assms init] by blast
  have full: "in_flight 0 cs (loadManager :: 'cb ImageLoadManager) = 4 \<longrightarrow>
            startLoad callback (snd (calls cs loadManager))
              = ([], (snd (calls cs loadManager))\<lparr>queue := queue (snd (calls cs loadManager)) @ [callback]\<rparr>)"
    using whole by (simp add: startLoad_def canLoad_def)
  from pre full show ?thesis by auto
qed

theorem load_manager_bounds_concurrency_witness:
  "completes_dispatched 0
     [StartLoad (1::nat), StartLoad 2, FinishLoad (1/2), StartLoad 3, StartLoad 4, StartLoad 5, StartLoad 6]
     loadManager
   \<and> in_flight 0
     [StartLoad (1::nat), StartLoad 2, FinishLoad (1/2), StartLoad 3, StartLoad 4, StartLoad 5, StartLoad 6]
     loadManager = 4
   \<and> activeLoads (snd (calls (take 2
     [StartLoad (1::nat), StartLoad 2, FinishLoad (1/2), StartLoad 3, StartLoad 4, StartLoad 5, StartLoad 6])
     loadManager)) = 2
   \<and> startLoad 7 (snd (calls
     [StartLoad (1::nat), StartLoad 2, FinishLoad (1/2), StartLoad 3, StartLoad 4, StartLoad 5, StartLoad 6]
     loadManager))
     = ([], \<lparr>activeLoads = 4, maxConcurrent = 4, queue = [6, 7]\<rparr>)"
proof -
  have h: "completes_dispatched 0
     [StartLoad (1::nat), StartLoad 2, FinishLoad (1/2), StartLoad 3, StartLoad 4, StartLoad 5, StartLoad 6]
     loadManager"
    by (simp add: startLoad_def finishLoad_def canLoad_def loadManager_def)
  show ?thesis
    using h load_manager_bounds_concurrency [OF h, of 7]
    by (simp add: startLoad_def finishLoad_def canLoad_def loadManager_def)
qed

subsection \<open>The order of the queue\<close>

lemma call_fifo:
  "scheduled (fst (call c m)) @ queue (snd (call c m)) = queue m @ pushed [c] m"
  by (cases c) (auto simp: startLoad_def finishLoad_def Let_def split: list.split)

lemma pushed_Cons: "pushed (c # cs) m = pushed [c] m @ pushed cs (snd (call c m))"
  by (cases c) simp_all

lemma scheduled_append: "scheduled (xs @ ys) = scheduled xs @ scheduled ys"
  by (induction xs rule: scheduled.induct) simp_all

lemma calls_fifo:
  "scheduled (fst (calls cs m)) @ queue (snd (calls cs m)) = queue m @ pushed cs m"
proof (induction cs arbitrary: m)
  case Nil
  show ?case by simp
next
  case (Cons c cs)
  have "scheduled (fst (calls (c # cs) m)) @ queue (snd (calls (c # cs) m))
        = scheduled (fst (call c m)) @ (scheduled (fst (calls cs (snd (call c m)))) @ queue (snd (calls cs (snd (call c m)))))"
    by (simp only: calls_Cons_fst calls_Cons_snd scheduled_append append_assoc)
  also have "\<dots> = scheduled (fst (call c m)) @ (queue (snd (call c m)) @ pushed cs (snd (call c m)))"
    by (simp only: Cons.IH)
  also have "\<dots> = (queue m @ pushed [c] m) @ pushed cs (snd (call c m))"
    by (simp only: call_fifo [symmetric] append_assoc)
  also have "\<dots> = queue m @ pushed (c # cs) m"
    by (simp only: pushed_Cons [of c cs m] append_assoc)
  finally show ?case .
qed

text \<open>
  Claim C7. In every state of the manager (so in every reachable one), a \<open>finishLoad\<close>
  that finds the queue non-empty schedules exactly its first element, the callback pushed
  earliest among the pending ones, and removes it; a \<open>finishLoad\<close> schedules at most one
  callback. Over any sequence of calls, the callbacks scheduled so far followed by those
  still queued are the callbacks queued at the start followed by the pushed ones, in the
  order of the pushes: no callback is scheduled before one that was pushed earlier.
  Scheduling is the \<open>setTimeout\<close> call; when the timers fire is outside the model.
\<close>

theorem finishLoad_dispatches_fifo:
  "(queue m = c # rest \<longrightarrow> finishLoad rnd m = ([SetTimeout c (rnd * 100)], m\<lparr>queue := rest\<rparr>))
   \<and> length (fst (finishLoad rnd m)) \<le> 1
   \<and> scheduled (fst (calls cs m)) @ queue (snd (calls cs m)) = queue m @ pushed cs m"
  by (auto simp: calls_fifo finishLoad_def Let_def split: list.split)

theorem finishLoad_dispatches_fifo_witness:
  "queue \<lparr>activeLoads = 4, maxConcurrent = 4, queue = [5::nat, 6]\<rparr> = 5 # [6]
   \<and> finishLoad (1/2) \<lparr>activeLoads = 4, maxConcurrent = 4, queue = [5::nat, 6]\<rparr>
       = ([SetTimeout 5 50], \<lparr>activeLoads = 4, maxConcurrent = 4, queue = [6]\<rparr>)
   \<and> scheduled (fst (calls [StartLoad 7, FinishLoad (1/4), FinishLoad (1/4)]
         \<lparr>activeLoads = 4, maxConcurrent = 4, queue = [5::nat, 6]\<rparr>)) = [5, 6]
   \<and> queue (snd (calls [StartLoad 7, FinishLoad (1/4), FinishLoad (1/4)]
         \<lparr>activeLoads = 4, maxConcurrent = 4, queue = [5::nat, 6]\<rparr>)) = [7]"
  using finishLoad_dispatches_fifo
    [of "\<lparr>activeLoads = 4, maxConcurrent = 4, queue = [5::nat, 6]\<rparr>" 5 "[6]" "1/2"
        "[StartLoad 7, FinishLoad (1/4), FinishLoad (1/4)]"]
  by (simp add: startLoad_def finishLoad_def canLoad_def)

section \<open>SafeImage (src/components/ui/verified-badge.tsx)\<close>

subsection \<open>JavaScript string operations\<close>

text \<open>
  A JavaScript string is a \<open>string\<close>, one \<open>char\<close> per code unit (code units above 255
  are outside the model). A value that may be \<open>undefined\<close> is an \<open>option\<close>.
\<close>

fun startsWith :: "string \<Rightarrow> string \<Rightarrow> bool" where
  "startsWith s [] = True"
| "startsWith [] (p # ps) = False"
| "startsWith (c # s) (p # ps) = (c = p \<and> startsWith s ps)"

text \<open>\<open>s.includes(pat)\<close> (\<open>includes\<close> is a keyword of Isabelle)\<close>

fun includes_str :: "string \<Rightarrow> string \<Rightarrow> bool" where
  "includes_str [] pat = (pat = [])"
| "includes_str (c # s) pat = (startsWith (c # s) pat \<or> includes_str s pat)"

text \<open>\<open>s.split(sep)\<close> for a separator of one character: the result is never empty.\<close>

fun split :: "string \<Rightarrow> char \<Rightarrow> string list" where
  "split [] sep = [] # []"
| "split (c # s) sep =
     (if c = sep then [] # split s sep
      else (case split s sep of [] \<Rightarrow> [c] # [] | p # ps \<Rightarrow> (c # p) # ps))"

text \<open>\<open>s.replace(pat, rep)\<close> with a string pattern: the first occurrence only.\<close>

fun replace :: "string \<Rightarrow> string \<Rightarrow> string \<Rightarrow> string" where
  "replace [] pat rep = (if pat = [] then rep else [])"
| "replace (c # s) pat rep =
     (if startsWith (c # s) pat then rep @ drop (length pat) (c # s)
      else c # replace s pat rep)"

text \<open>\<open>a || b\<close> where \<open>a\<close> is a string or \<open>undefined\<close>/\<open>null\<close>: the empty string is falsy.\<close>

definition or_else :: "string option \<Rightarrow> string \<Rightarrow> string" where
  "or_else a b = (case a of None \<Rightarrow> b | Some s \<Rightarrow> if s = [] then b else s)"

text \<open>A non-negative integer as a template literal prints it: decimal digits.\<close>

fun decimal :: "nat \<Rightarrow> string" where
  "decimal n =
     (if n < 10 then [char_of (48 + n)]
      else decimal (n div 10) @ [char_of (48 + n mod 10)])"

text \<open>
  \<open>s.match(/\?(.+)/)\<close>, then group 1: the first question mark that is followed by a
  character other than a line terminator, and the run of such characters after it.
\<close>

definition lineTerminator :: "char \<Rightarrow> bool" where
  "lineTerminator c = (c = CHR 0x0A \<or> c = CHR 0x0D)"

fun matchQuery :: "string \<Rightarrow> string option" where
  "matchQuery [] = None"
| "matchQuery (c # s) =
     (if c = CHR ''?'' \<and> takeWhile (\<lambda>d. \<not> lineTerminator d) s \<noteq> []
      then Some (takeWhile (\<lambda>d. \<not> lineTerminator d) s)
      else matchQuery s)"

subsection \<open>The fallback chain\<close>

text \<open>
  Functions of the browser that the component calls: \<open>encodeURIComponent(s)\<close>,
  \<open>new URLSearchParams(q).get(name)\<close> (\<open>null\<close> is \<open>None\<close>), and the demo-mode switch read
  from the build environment and local storage.
\<close>

record platform =
  encodeURIComponent :: "string \<Rightarrow> string"
  searchParamsGet :: "string \<Rightarrow> string \<Rightarrow> string option"
  isDemoMode :: bool

record SafeImageProps =
  src :: string
  fallback :: "string option"
  demoSkipIndex :: "int option"
  maxRetries :: int
  lowBandwidth :: bool

text \<open>The defaults of the destructured props: \<open>maxRetries = 3\<close>, \<open>lowBandwidth = false\<close>.\<close>

definition defaultProps :: "string \<Rightarrow> SafeImageProps" where
  "defaultProps s =
     \<lparr>src = s, fallback = None, demoSkipIndex = None, maxRetries = 3, lowBandwidth = False\<rparr>"

definition FALLBACK_AVATAR :: string where
  "FALLBACK_AVATAR = ''/assets/img/avatar-fallback.png''"

definition FALLBACK_IMAGE :: string where
  "FALLBACK_IMAGE = ''/assets/img/fallback-400x300.png''"

definition getAvatarFallbacks :: "platform \<Rightarrow> string \<Rightarrow> string list" where
  "getAvatarFallbacks pf username =
     [''https://api.dicebear.com/7.x/avataaars/svg?seed='' @ encodeURIComponent pf username,
      ''https://i.pravatar.cc/150?u='' @ encodeURIComponent pf username,
      FALLBACK_AVATAR]"

definition getBrandLogoFallbacks :: "string \<Rightarrow> string list" where
  "getBrandLogoFallbacks domain =
     [''https://logo.clearbit.com/'' @ domain,
      ''/assets/logos/local-'' @ replace (replace domain ''.com'' []) ''.'' ''-'' @ ''.png'',
      ''/assets/logos/default.png'']"

definition getContentImageFallbacks :: "platform \<Rightarrow> nat \<Rightarrow> string option \<Rightarrow> string list" where
  "getContentImageFallbacks pf seed topic =
     (case topic of
        None \<Rightarrow> []
      | Some t \<Rightarrow>
          if t = [] then []
          else [''https://source.unsplash.com/800x600/?'' @ encodeURIComponent pf t])
     @ [''https://picsum.photos/800/600?random='' @ decimal seed, FALLBACK_IMAGE]"

text \<open>
  \<open>getFallbackSources\<close> closes over the prop \<open>fallback\<close>; \<open>rnd\<close> is the value of
  \<open>Math.random()\<close>, read in the content-image branch only.
\<close>

definition getFallbackSources :: "platform \<Rightarrow> string option \<Rightarrow> real \<Rightarrow> string \<Rightarrow> string list" where
  "getFallbackSources pf fallbackProp rnd originalSrc =
     (if or_else fallbackProp [] \<noteq> [] then [originalSrc, or_else fallbackProp []]
      else if includes_str originalSrc ''supabase.co/storage'' then [originalSrc]
      else if includes_str originalSrc ''logo.clearbit.com'' then
        (let domain = or_else (case rev (split originalSrc CHR ''/'') of [] \<Rightarrow> None | p # ps \<Rightarrow> Some p) []
         in getBrandLogoFallbacks domain)
      else if includes_str originalSrc ''dicebear.com'' \<or> includes_str originalSrc ''pravatar.cc'' then
        (let q = or_else (case split originalSrc CHR ''?'' of p0 # p1 # ps \<Rightarrow> Some p1 | _ \<Rightarrow> None) [];
             seed = or_else (searchParamsGet pf q ''seed'')
                      (or_else (searchParamsGet pf q ''u'') ''default'')
         in getAvatarFallbacks pf seed)
      else if includes_str originalSrc ''unsplash.com'' \<or> includes_str originalSrc ''picsum.photos'' then
        (let randomSeed = nat \<lfloor>rnd * 1000\<rfloor>;
             topic = (if includes_str originalSrc ''unsplash.com'' then matchQuery originalSrc else None)
         in getContentImageFallbacks pf randomSeed topic)
      else [originalSrc, FALLBACK_IMAGE])"

subsection \<open>Loading one source, with retries\<close>

text \<open>
  \<open>checkImageUrl\<close> sends a HEAD request. The request either fails (also when the
  three-second timer aborts it), and the function returns \<open>true\<close>, or answers with a
  response, whose fields \<open>ok\<close> and \<open>status\<close> decide.
\<close>

datatype head_result = FetchFailed | Response bool nat

fun checkImageUrl :: "head_result \<Rightarrow> bool" where
  "checkImageUrl FetchFailed = True"
| "checkImageUrl (Response ok status) = (ok \<or> status = 0)"

text \<open>
  What the browser does in one attempt: the answer to the HEAD request, which of
  \<open>img.onload\<close> and \<open>img.onerror\<close> fires, and the value of \<open>Math.random()\<close> read by
  the error handler.
\<close>

datatype image_result = Onload | Onerror

record attempt_env =
  head :: head_result
  image :: image_result
  random :: real

text \<open>
  The effects of a load, in the order in which they happen. \<open>CallOnLoad\<close> and
  \<open>CallOnError\<close> are \<open>onLoad?.()\<close> and \<open>onError?.(msg)\<close>: the prop is called when it is
  given. \<open>ManagerStartLoad\<close> hands the callback to the load manager; the events after
  it are those of the callback once the manager runs it. \<open>RetryTimeout s a d\<close> is the
  \<open>setTimeout\<close> whose handler, after \<open>d\<close> milliseconds, calls \<open>loadImage(s, a)\<close>.
  \<open>Resolve\<close> and \<open>Reject\<close> settle the promise that \<open>loadImage\<close> returns.
\<close>

datatype event =
    SetCurrentSrc string
  | SetIsLoading bool
  | SetError "string option"
  | SetRetryCountInc
  | ManagerStartLoad string nat
  | ManagerFinishLoad
  | ConsoleWarn string
  | CallOnLoad
  | CallOnError string
  | RetryTimeout string nat real
  | Resolve
  | Reject string

definition effectiveLowBandwidth :: "platform \<Rightarrow> SafeImageProps \<Rightarrow> bool" where
  "effectiveLowBandwidth pf props =
     (lowBandwidth props \<or>
      (isDemoMode pf \<and> (case demoSkipIndex props of None \<Rightarrow> False | Some i \<Rightarrow> 2 < i)))"

definition failedToLoad :: "string \<Rightarrow> string" where
  "failedToLoad srcToLoad = ''Failed to load image: '' @ srcToLoad"

function loadImage :: "platform \<Rightarrow> SafeImageProps \<Rightarrow> (nat \<Rightarrow> attempt_env) \<Rightarrow> string \<Rightarrow> nat \<Rightarrow> event list" where
  "loadImage pf props env srcToLoad attempt =
     (if effectiveLowBandwidth pf props \<and> attempt = 0
      then [SetCurrentSrc FALLBACK_IMAGE, SetIsLoading False, Resolve]
      else
        [ManagerStartLoad srcToLoad attempt, SetIsLoading True, SetError None] @
        (if \<not> checkImageUrl (head (env attempt)) \<and> attempt = 0
         then [ManagerFinishLoad,
               ConsoleWarn (''[SafeImage] '' @ ''URL validation failed''),
               SetError (Some ''URL validation failed''),
               CallOnError ''URL validation failed'',
               Reject ''URL validation failed'']
         else if image (env attempt) = Onload
         then [ManagerFinishLoad, SetCurrentSrc srcToLoad, SetIsLoading False, SetError None,
               CallOnLoad, Resolve]
         else
           [ManagerFinishLoad,
            ConsoleWarn (''[SafeImage] '' @ failedToLoad srcToLoad @ '' (attempt '' @
                         decimal (attempt + 1) @ '')'')] @
           (if int attempt < maxRetries props
            then [RetryTimeout srcToLoad (attempt + 1)
                    (2 ^ attempt * 1000 + random (env attempt) * 1000),
                  SetRetryCountInc]
                 @ loadImage pf props env srcToLoad (attempt + 1)
            else [SetError (Some (failedToLoad srcToLoad)),
                  CallOnError (failedToLoad srcToLoad),
                  Reject (failedToLoad srcToLoad)])))"
  by pat_completeness auto
termination
  by (relation "measure (\<lambda>(pf, props, env, srcToLoad, attempt). nat (maxRetries props - int attempt))")
     auto

text \<open>The retries that a load schedules: source, attempt number and delay.\<close>

fun retries :: "event list \<Rightarrow> (string \<times> nat \<times> real) list" where
  "retries [] = []"
| "retries (RetryTimeout s a d # evs) = (s, a, d) # retries evs"
| "retries (ev # evs) = retries evs"

text \<open>The messages passed to the error callback.\<close>

fun errorCalls :: "event list \<Rightarrow> string list" where
  "errorCalls [] = []"
| "errorCalls (CallOnError msg # evs) = msg # errorCalls evs"
| "errorCalls (ev # evs) = errorCalls evs"

text \<open>
  The error handler of the image element runs at attempt \<open>n\<close>: the load is started (not
  replaced by the low-bandwidth placeholder), it is not stopped by the URL check, and the
  image element reports an error.
\<close>

definition imageFails :: "platform \<Rightarrow> SafeImageProps \<Rightarrow> (nat \<Rightarrow> attempt_env) \<Rightarrow> nat \<Rightarrow> bool" where
  "imageFails pf props env n =
     (\<not> (effectiveLowBandwidth pf props \<and> n = 0)
      \<and> (checkImageUrl (head (env n)) \<or> 0 < n)
      \<and> image (env n) = Onerror)"

subsection \<open>Trying the sources in turn\<close>

text \<open>
  The loop of \<open>loadWithFallbacks\<close> from index \<open>i\<close> on: it awaits \<open>loadImage(sources[i])\<close>
  and returns when the promise resolves; when it rejects and the source was the last one,
  it sets the final error state. \<open>env i\<close> is what the browser does for the source at
  index \<open>i\<close>.
\<close>

fun tryFallbacks :: "platform \<Rightarrow> SafeImageProps \<Rightarrow> (nat \<Rightarrow> nat \<Rightarrow> attempt_env) \<Rightarrow> nat \<Rightarrow> string list \<Rightarrow> event list" where
  "tryFallbacks pf props env i [] = []"
| "tryFallbacks pf props env i (s # rest) =
     (if last (loadImage pf props (env i) s 0) = Resolve
      then loadImage pf props (env i) s 0
      else loadImage pf props (env i) s 0
           @ (if rest = []
              then [SetCurrentSrc [], SetIsLoading False, SetError (Some ''All image sources failed'')]
              else [])
           @ tryFallbacks pf props env (i + 1) rest)"

definition loadWithFallbacks :: "platform \<Rightarrow> SafeImageProps \<Rightarrow> real \<Rightarrow> (nat \<Rightarrow> nat \<Rightarrow> attempt_env) \<Rightarrow> event list" where
  "loadWithFallbacks pf props rnd env =
     tryFallbacks pf props env 0 (getFallbackSources pf (fallback props) rnd (src props))"

subsection \<open>Retries and backoff\<close>

declare loadImage.simps [simp del]

lemma retries_append: "retries (xs @ ys) = retries xs @ retries ys"
  by (induction xs rule: retries.induct) simp_all

lemma errorCalls_append: "errorCalls (xs @ ys) = errorCalls xs @ errorCalls ys"
  by (induction xs rule: errorCalls.induct) simp_all

lemma loadImage_retry_step:
  assumes "imageFails pf props env n" "int n < maxRetries props"
  shows "loadImage pf props env srcToLoad n =
     [ManagerStartLoad srcToLoad n, SetIsLoading True, SetError None, ManagerFinishLoad,
      ConsoleWarn (''[SafeImage] '' @ failedToLoad srcToLoad @ '' (attempt '' @ decimal (n + 1) @ '')''),
      RetryTimeout srcToLoad (n + 1) (2 ^ n * 1000 + random (env n) * 1000),
      SetRetryCountInc] @ loadImage pf props env srcToLoad (n + 1)"
  using assms by (subst loadImage.simps) (auto simp: imageFails_def)

lemma loadImage_exhausted:
  assumes "imageFails pf props env n" "\<not> int n < maxRetries props"
  shows "loadImage pf props env srcToLoad n =
     [ManagerStartLoad srcToLoad n, SetIsLoading True, SetError None, ManagerFinishLoad,
      ConsoleWarn (''[SafeImage] '' @ failedToLoad srcToLoad @ '' (attempt '' @ decimal (n + 1) @ '')''),
      SetError (Some (failedToLoad srcToLoad)),
      CallOnError (failedToLoad srcToLoad),
      Reject (failedToLoad srcToLoad)]"
  using assms by (subst loadImage.simps) (auto simp: imageFails_def)

lemma loadImage_invalid_url:
  assumes "\<not> effectiveLowBandwidth pf props" "\<not> checkImageUrl (head (env 0))"
  shows "loadImage pf props env srcToLoad 0 =
     [ManagerStartLoad srcToLoad 0, SetIsLoading True, SetError None, ManagerFinishLoad,
      ConsoleWarn (''[SafeImage] '' @ ''URL validation failed''),
      SetError (Some ''URL validation failed''),
      CallOnError ''URL validation failed'',
      Reject ''URL validation failed'']"
  using assms by (subst loadImage.simps) auto

lemma all_attempts_fail:
  "int a \<le> maxRetries props \<Longrightarrow> (\<forall>k. a \<le> k \<and> int k \<le> maxRetries props \<longrightarrow> imageFails pf props env k) \<Longrightarrow>
   map (\<lambda>(s, k, d). (s, k)) (retries (loadImage pf props env srcToLoad a))
     = map (\<lambda>k. (srcToLoad, k)) [a + 1 ..< nat (maxRetries props) + 1]
   \<and> errorCalls (loadImage pf props env srcToLoad a) = [failedToLoad srcToLoad]
   \<and> last (loadImage pf props env srcToLoad a) = Reject (failedToLoad srcToLoad)"
proof (induction "nat (maxRetries props) - a" arbitrary: a)
  case 0
  then have eq: "int a = maxRetries props" by linarith
  then have f: "imageFails pf props env a" using "0.prems" by simp
  have nl: "\<not> int a < maxRetries props" using eq by simp
  have "nat (maxRetries props) = a" using eq by simp
  then show ?case
    by (simp add: loadImage_exhausted [OF f nl])
next
  case (Suc d)
  then have lt: "int a < maxRetries props" by linarith
  have f: "imageFails pf props env a" using Suc.prems by simp
  have d: "d = nat (maxRetries props) - (a + 1)" using Suc.hyps(2) by simp
  have le: "int (a + 1) \<le> maxRetries props" using lt by simp
  have rest: "\<forall>k. a + 1 \<le> k \<and> int k \<le> maxRetries props \<longrightarrow> imageFails pf props env k"
    using Suc.prems(2) by simp
  note IH = Suc.hyps(1) [OF d le rest]
  have up: "[a + 1 ..< nat (maxRetries props) + 1] = (a + 1) # [a + 1 + 1 ..< nat (maxRetries props) + 1]"
  proof -
    have "a + 1 < nat (maxRetries props) + 1" using lt by linarith
    from upt_conv_Cons [OF this] show ?thesis by simp
  qed
  have ne: "loadImage pf props env srcToLoad (a + 1) \<noteq> []"
    by (subst loadImage.simps) simp
  show ?case
    using IH ne unfolding loadImage_retry_step [OF f lt] up
    by (simp add: retries_append errorCalls_append)
qed

text \<open>
  Claim C3, as the code has it. When the image element fails to load a source at attempt
  \<open>n\<close> with \<open>n < maxRetries\<close>, \<open>loadImage\<close> schedules one retry of the same source, as
  attempt \<open>n + 1\<close>, after \<open>2 ^ n * 1000\<close> milliseconds plus a jitter
  \<open>Math.random() * 1000\<close> that is less than 1000; the deterministic part doubles from one
  attempt to the next. When it fails at an attempt \<open>n\<close> that is not below \<open>maxRetries\<close>, no
  retry is scheduled, the error callback is called with the message and the promise
  rejects. When every attempt fails, a load started at attempt 0 schedules exactly
  \<open>maxRetries\<close> retries, for the attempts \<open>1 .. maxRetries\<close>, and then calls the error
  callback once. A source that the URL check refuses at attempt 0 is not retried: the
  error callback is called at once. (\<open>maxRetries\<close> is an integer here; the delay is
  computed on the reals, not on doubles.)
\<close>

theorem loadImage_backoff:
  "(imageFails pf props env n \<and> int n < maxRetries props
      \<and> 0 \<le> random (env n) \<and> random (env n) < 1 \<longrightarrow>
      retries (loadImage pf props env srcToLoad n)
        = (srcToLoad, n + 1, 2 ^ n * 1000 + random (env n) * 1000)
          # retries (loadImage pf props env srcToLoad (n + 1))
      \<and> 2 ^ n * 1000 \<le> 2 ^ n * 1000 + random (env n) * 1000
      \<and> 2 ^ n * 1000 + random (env n) * 1000 < 2 ^ n * 1000 + (1000 :: real)
      \<and> (2 :: real) ^ (n + 1) * 1000 = 2 * (2 ^ n * 1000))
   \<and> (imageFails pf props env n \<and> \<not> int n < maxRetries props \<longrightarrow>
      retries (loadImage pf props env srcToLoad n) = []
      \<and> errorCalls (loadImage pf props env srcToLoad n) = [failedToLoad srcToLoad]
      \<and> last (loadImage pf props env srcToLoad n) = Reject (failedToLoad srcToLoad))
   \<and> (0 \<le> maxRetries props \<and> (\<forall>k. int k \<le> maxRetries props \<longrightarrow> imageFails pf props env k) \<longrightarrow>
      map (\<lambda>(s, k, d). (s, k)) (retries (loadImage pf props env srcToLoad 0))
        = map (\<lambda>k. (srcToLoad, k)) [1 ..< nat (maxRetries props) + 1]
      \<and> length (retries (loadImage pf props env srcToLoad 0)) = nat (maxRetries props)
      \<and> errorCalls (loadImage pf props env srcToLoad 0) = [failedToLoad srcToLoad]
      \<and> last (loadImage pf props env srcToLoad 0) = Reject (failedToLoad srcToLoad))
   \<and> (\<not> effectiveLowBandwidth pf props \<and> \<not> checkImageUrl (head (env 0)) \<longrightarrow>
      retries (loadImage pf props env srcToLoad 0) = []
      \<and> errorCalls (loadImage pf props env srcToLoad 0) = [''URL validation failed''])"
proof -
  have A: "imageFails pf props env n \<and> int n < maxRetries props
      \<and> 0 \<le> random (env n) \<and> random (env n) < 1 \<longrightarrow>
      retries (loadImage pf props env srcToLoad n)
        = (srcToLoad, n + 1, 2 ^ n * 1000 + random (env n) * 1000)
          # retries (loadImage pf props env srcToLoad (n + 1))
      \<and> 2 ^ n * 1000 \<le> 2 ^ n * 1000 + random (env n) * 1000
      \<and> 2 ^ n * 1000 + random (env n) * 1000 < 2 ^ n * 1000 + (1000 :: real)
      \<and> (2 :: real) ^ (n + 1) * 1000 = 2 * (2 ^ n * 1000)"
    by (simp add: loadImage_retry_step retries_append)
  have B: "imageFails pf props env n \<and> \<not> int n < maxRetries props \<longrightarrow>
      retries (loadImage pf props env srcToLoad n) = []
      \<and> errorCalls (loadImage pf props env srcToLoad n) = [failedToLoad srcToLoad]
      \<and> last (loadImage pf props env srcToLoad n) = Reject (failedToLoad srcToLoad)"
    by (simp add: loadImage_exhausted)
  have C: "0 \<le> maxRetries props \<and> (\<forall>k. int k \<le> maxRetries props \<longrightarrow> imageFails pf props env k) \<longrightarrow>
      map (\<lambda>(s, k, d). (s, k)) (retries (loadImage pf props env srcToLoad 0))
        = map (\<lambda>k. (srcToLoad, k)) [1 ..< nat (maxRetries props) + 1]
      \<and> length (retries (loadImage pf props env srcToLoad 0)) = nat (maxRetries props)
      \<and> errorCalls (loadImage pf props env srcToLoad 0) = [failedToLoad srcToLoad]
      \<and> last (loadImage pf props env srcToLoad 0) = Reject (failedToLoad srcToLoad)"
  proof (intro impI, elim conjE)
    assume m: "0 \<le> maxRetries props"
      and f: "\<forall>k. int k \<le> maxRetries props \<longrightarrow> imageFails pf props env k"
    have le: "int 0 \<le> maxRetries props" using m by simp
    have f': "\<forall>k. 0 \<le> k \<and> int k \<le> maxRetries props \<longrightarrow> imageFails pf props env k"
      using f by simp
    note r = all_attempts_fail [OF le f', of srcToLoad]
    have "length (map (\<lambda>(s, k, d). (s, k)) (retries (loadImage pf props env srcToLoad 0)))
          = length (map (\<lambda>k. (srcToLoad, k)) [0 + 1 ..< nat (maxRetries props) + 1])"
      using r by simp
    then have len: "length (retries (loadImage pf props env srcToLoad 0)) = nat (maxRetries props)"
      by simp
    from r len show "map (\<lambda>(s, k, d). (s, k)) (retries (loadImage pf props env srcToLoad 0))
        = map (\<lambda>k. (srcToLoad, k)) [1 ..< nat (maxRetries props) + 1]
      \<and> length (retries (loadImage pf props env srcToLoad 0)) = nat (maxRetries props)
      \<and> errorCalls (loadImage pf props env srcToLoad 0) = [failedToLoad srcToLoad]
      \<and> last (loadImage pf props env srcToLoad 0) = Reject (failedToLoad srcToLoad)"
      by simp
  qed
  have D: "\<not> effectiveLowBandwidth pf props \<and> \<not> checkImageUrl (head (env 0)) \<longrightarrow>
      retries (loadImage pf props env srcToLoad 0) = []
      \<and> errorCalls (loadImage pf props env srcToLoad 0) = [''URL validation failed'']"
    by (simp add: loadImage_invalid_url)
  from A B C D show ?thesis by blast
qed

theorem loadImage_backoff_witness:
  "imageFails \<lparr>encodeURIComponent = (\<lambda>s. s), searchParamsGet = (\<lambda>q n. None), isDemoMode = False\<rparr>
      (defaultProps ''/a.png'') (\<lambda>k. \<lparr>head = FetchFailed, image = Onerror, random = 1/2\<rparr>) 0
   \<and> retries (loadImage \<lparr>encodeURIComponent = (\<lambda>s. s), searchParamsGet = (\<lambda>q n. None), isDemoMode = False\<rparr>
      (defaultProps ''/a.png'') (\<lambda>k. \<lparr>head = FetchFailed, image = Onerror, random = 1/2\<rparr>) ''/a.png'' 0)
      = [(''/a.png'', 1, 1500), (''/a.png'', 2, 2500), (''/a.png'', 3, 4500)]
   \<and> retries (loadImage \<lparr>encodeURIComponent = (\<lambda>s. s), searchParamsGet = (\<lambda>q n. None), isDemoMode = False\<rparr>
      (defaultProps ''/a.png'') (\<lambda>k. \<lparr>head = FetchFailed, image = Onerror, random = 1/2\<rparr>) ''/a.png'' 3)
      = []
   \<and> errorCalls (loadImage \<lparr>encodeURIComponent = (\<lambda>s. s), searchParamsGet = (\<lambda>q n. None), isDemoMode = False\<rparr>
      (defaultProps ''/a.png'') (\<lambda>k. \<lparr>head = FetchFailed, image = Onerror, random = 1/2\<rparr>) ''/a.png'' 0)
      = [''Failed to load image: /a.png'']
   \<and> \<not> checkImageUrl (Response False 404)
   \<and> errorCalls (loadImage \<lparr>encodeURIComponent = (\<lambda>s. s), searchParamsGet = (\<lambda>q n. None), isDemoMode = False\<rparr>
      (defaultProps ''/a.png'') (\<lambda>k. \<lparr>head = Response False 404, image = Onerror, random = 1/2\<rparr>) ''/a.png'' 0)
      = [''URL validation failed'']"
  using
    loadImage_backoff [of "\<lparr>encodeURIComponent = (\<lambda>s. s), searchParamsGet = (\<lambda>q n. None), isDemoMode = False\<rparr>"
      "defaultProps ''/a.png''" "\<lambda>k. \<lparr>head = FetchFailed, image = Onerror, random = 1/2\<rparr>" 0 "''/a.png''"]
    loadImage_backoff [of "\<lparr>encodeURIComponent = (\<lambda>s. s), searchParamsGet = (\<lambda>q n. None), isDemoMode = False\<rparr>"
      "defaultProps ''/a.png''" "\<lambda>k. \<lparr>head = FetchFailed, image = Onerror, random = 1/2\<rparr>" 3 "''/a.png''"]
    loadImage_backoff [of "\<lparr>encodeURIComponent = (\<lambda>s. s), searchParamsGet = (\<lambda>q n. None), isDemoMode = False\<rparr>"
      "defaultProps ''/a.png''" "\<lambda>k. \<lparr>head = Response False 404, image = Onerror, random = 1/2\<rparr>" 0 "''/a.png''"]
  by (simp add: loadImage.simps imageFails_def effectiveLowBandwidth_def defaultProps_def
        failedToLoad_def)

text \<open>
  The claim as it is written fails at attempt 0 when the URL check refuses the source: a
  same-origin HEAD request answered with status 404 makes \<open>checkImageUrl\<close> return
  \<open>false\<close>, the load of the source fails (the promise rejects) at attempt \<open>0 < 3\<close>, and no
  retry is scheduled.
\<close>

theorem loadImage_backoff_counterexample:
  "int 0 < maxRetries (defaultProps ''/assets/img/fallback-400x300.png'')
   \<and> last (loadImage \<lparr>encodeURIComponent = (\<lambda>s. s), searchParamsGet = (\<lambda>q n. None), isDemoMode = False\<rparr>
        (defaultProps ''/assets/img/fallback-400x300.png'')
        (\<lambda>k. \<lparr>head = Response False 404, image = Onerror, random = 1/2\<rparr>)
        ''/assets/img/fallback-400x300.png'' 0) = Reject ''URL validation failed''
   \<and> retries (loadImage \<lparr>encodeURIComponent = (\<lambda>s. s), searchParamsGet = (\<lambda>q n. None), isDemoMode = False\<rparr>
        (defaultProps ''/assets/img/fallback-400x300.png'')
        (\<lambda>k. \<lparr>head = Response False 404, image = Onerror, random = 1/2\<rparr>)
        ''/assets/img/fallback-400x300.png'' 0) = []"
  by (simp add: loadImage.simps effectiveLowBandwidth_def defaultProps_def)

subsection \<open>Sources in Supabase storage\<close>

lemma loadWithFallbacks_single:
  assumes "getFallbackSources pf (fallback props) rnd (src props) = [s]"
  shows "loadWithFallbacks pf props rnd env =
     (if last (loadImage pf props (env 0) s 0) = Resolve
      then loadImage pf props (env 0) s 0
      else loadImage pf props (env 0) s 0
           @ [SetCurrentSrc [], SetIsLoading False, SetError (Some ''All image sources failed'')])"
  by (simp add: loadWithFallbacks_def assms)

text \<open>
  Claim C9. When no \<open>fallback\<close> prop is given, \<open>getFallbackSources\<close> returns exactly
  \<open>[src]\<close> for every \<open>src\<close> that contains \<open>supabase.co/storage\<close>, so that
  \<open>loadWithFallbacks\<close> runs \<open>loadImage\<close> on \<open>src\<close> alone and, when that fails, ends in
  the error state without trying another source. For a \<open>src\<close> that contains none of the
  patterns of the function it returns \<open>[src, FALLBACK_IMAGE]\<close>, whose last element is the
  local placeholder.
\<close>

theorem supabase_urls_bypass_fallbacks:
  "(includes_str originalSrc ''supabase.co/storage'' \<longrightarrow>
      getFallbackSources pf None rnd originalSrc = [originalSrc])
   \<and> (includes_str (src props) ''supabase.co/storage'' \<and> fallback props = None \<longrightarrow>
      loadWithFallbacks pf props rnd env =
        (if last (loadImage pf props (env 0) (src props) 0) = Resolve
         then loadImage pf props (env 0) (src props) 0
         else loadImage pf props (env 0) (src props) 0
              @ [SetCurrentSrc [], SetIsLoading False, SetError (Some ''All image sources failed'')]))
   \<and> (\<not> includes_str originalSrc ''supabase.co/storage''
        \<and> \<not> includes_str originalSrc ''logo.clearbit.com''
        \<and> \<not> includes_str originalSrc ''dicebear.com''
        \<and> \<not> includes_str originalSrc ''pravatar.cc''
        \<and> \<not> includes_str originalSrc ''unsplash.com''
        \<and> \<not> includes_str originalSrc ''picsum.photos'' \<longrightarrow>
      getFallbackSources pf None rnd originalSrc = [originalSrc, FALLBACK_IMAGE]
      \<and> last (getFallbackSources pf None rnd originalSrc) = ''/assets/img/fallback-400x300.png'')"
proof -
  have a: "includes_str originalSrc ''supabase.co/storage'' \<longrightarrow>
      getFallbackSources pf None rnd originalSrc = [originalSrc]" for originalSrc
    by (simp add: getFallbackSources_def or_else_def)
  have b: "includes_str (src props) ''supabase.co/storage'' \<and> fallback props = None \<longrightarrow>
      loadWithFallbacks pf props rnd env =
        (if last (loadImage pf props (env 0) (src props) 0) = Resolve
         then loadImage pf props (env 0) (src props) 0
         else loadImage pf props (env 0) (src props) 0
              @ [SetCurrentSrc [], SetIsLoading False, SetError (Some ''All image sources failed'')])"
    using a [of "src props"] loadWithFallbacks_single [of pf props rnd "src props" env] by auto
  have c: "\<not> includes_str originalSrc ''supabase.co/storage''
        \<and> \<not> includes_str originalSrc ''logo.clearbit.com''
        \<and> \<not> includes_str originalSrc ''dicebear.com''
        \<and> \<not> includes_str originalSrc ''pravatar.cc''
        \<and> \<not> includes_str originalSrc ''unsplash.com''
        \<and> \<not> includes_str originalSrc ''picsum.photos'' \<longrightarrow>
      getFallbackSources pf None rnd originalSrc = [originalSrc, FALLBACK_IMAGE]
      \<and> last (getFallbackSources pf None rnd originalSrc) = ''/assets/img/fallback-400x300.png''"
    by (simp add: getFallbackSources_def or_else_def FALLBACK_IMAGE_def)
  from a b c show ?thesis by blast
qed

theorem supabase_urls_bypass_fallbacks_witness:
  "includes_str ''https://abc.supabase.co/storage/v1/object/public/posts/u1/a.png'' ''supabase.co/storage''
   \<and> getFallbackSources
        \<lparr>encodeURIComponent = (\<lambda>s. s), searchParamsGet = (\<lambda>q n. None), isDemoMode = False\<rparr> None (1/2)
        ''https://abc.supabase.co/storage/v1/object/public/posts/u1/a.png''
       = [''https://abc.supabase.co/storage/v1/object/public/posts/u1/a.png'']
   \<and> retries (loadWithFallbacks
        \<lparr>encodeURIComponent = (\<lambda>s. s), searchParamsGet = (\<lambda>q n. None), isDemoMode = False\<rparr>
        ((defaultProps ''https://abc.supabase.co/storage/v1/object/public/posts/u1/a.png'')\<lparr>maxRetries := 1\<rparr>)
        (1/2) (\<lambda>i k. \<lparr>head = FetchFailed, image = Onerror, random = 1/2\<rparr>))
       = [(''https://abc.supabase.co/storage/v1/object/public/posts/u1/a.png'', 1, 1500)]
   \<and> getFallbackSources
        \<lparr>encodeURIComponent = (\<lambda>s. s), searchParamsGet = (\<lambda>q n. None), isDemoMode = False\<rparr> None (1/2)
        ''https://example.org/a.png''
       = [''https://example.org/a.png'', ''/assets/img/fallback-400x300.png'']"
  using
    supabase_urls_bypass_fallbacks
      [of "''https://abc.supabase.co/storage/v1/object/public/posts/u1/a.png''"
          "\<lparr>encodeURIComponent = (\<lambda>s. s), searchParamsGet = (\<lambda>q n. None), isDemoMode = False\<rparr>" "1/2"
          "(defaultProps ''https://abc.supabase.co/storage/v1/object/public/posts/u1/a.png'')\<lparr>maxRetries := 1\<rparr>"
          "\<lambda>i k. \<lparr>head = FetchFailed, image = Onerror, random = 1/2\<rparr>"]
    supabase_urls_bypass_fallbacks
      [of "''https://example.org/a.png''"
          "\<lparr>encodeURIComponent = (\<lambda>s. s), searchParamsGet = (\<lambda>q n. None), isDemoMode = False\<rparr>" "1/2"
          "defaultProps ''https://example.org/a.png''"
          "\<lambda>i k. \<lparr>head = FetchFailed, image = Onerror, random = 1/2\<rparr>"]
  by (simp add: loadImage.simps effectiveLowBandwidth_def defaultProps_def FALLBACK_IMAGE_def
        failedToLoad_def)

section \<open>The database (supabase/migrations)\<close>

text \<open>
  A table is the list of its rows. A \<open>UUID\<close> is a string, a \<open>TIMESTAMP WITH TIME ZONE\<close>
  the number of microseconds since the epoch, a \<open>DECIMAL(10,2)\<close> the number of
  hundredths. A column that may be \<open>NULL\<close> is an \<open>option\<close>. The tables \<open>profiles\<close> and
  \<open>notifications\<close> are created by migrations that are not among the sources: only the
  columns that the sources name are modelled, and no constraint of these two tables.
\<close>

type_synonym uuid = string
type_synonym timestamptz = int

record profile_row =
  profile_user_id :: uuid
  profile_rewards :: int

record post_row =
  post_id :: uuid
  post_user_id :: uuid
  post_content_type :: string
  post_content_url :: "string option"
  post_caption :: "string option"
  post_created_at :: timestamptz
  post_updated_at :: timestamptz
  post_is_spark :: bool

record notification_row =
  notif_user_id :: uuid
  notif_type :: string
  notif_title :: string
  notif_message :: string
  notif_actor_id :: "uuid option"
  notif_post_id :: "uuid option"

record story_row =
  story_id :: uuid
  story_user_id :: uuid
  story_content_url :: string
  story_content_type :: string
  story_caption :: "string option"
  story_created_at :: timestamptz
  story_expires_at :: timestamptz

record database =
  profiles :: "profile_row list"
  posts :: "post_row list"
  notifications :: "notification_row list"
  stories :: "story_row list"

datatype sql_error =
    NumericValueOutOfRange
  | UniqueViolation
  | ForeignKeyViolation
  | CheckViolation

subsection \<open>Rewards for a new post (award\_post\_points)\<close>

text \<open>A \<open>DECIMAL(10,2)\<close> holds at most eight digits before the point.\<close>

definition decimal_10_2 :: "int \<Rightarrow> bool" where
  "decimal_10_2 v = (\<bar>v\<bar> < 10 ^ 10)"

text \<open>The text of a \<open>DECIMAL(10,2)\<close>, as \<open>||\<close> converts it: always two decimals.\<close>

definition numeric_text :: "int \<Rightarrow> string" where
  "numeric_text v =
     (if v < 0 then ''-'' else []) @ decimal (nat \<bar>v\<bar> div 100) @ ''.''
     @ decimal (nat \<bar>v\<bar> div 10 mod 10) @ decimal (nat \<bar>v\<bar> mod 10)"

text \<open>
  The trigger function, run with the new row \<open>NEW\<close>. An overflow of the sum raises an
  error, which aborts the statement. The title ends in the four bytes of U+1F389.
\<close>

definition award_post_points :: "post_row \<Rightarrow> database \<Rightarrow> sql_error + database" where
  "award_post_points NEW db =
     (let points = (if post_is_spark NEW then 100 else 50);
          reward_type = (if post_is_spark NEW then ''Spark'' else ''Post'')
      in
        if \<exists>p \<in> set (profiles db).
             profile_user_id p = post_user_id NEW \<and> \<not> decimal_10_2 (profile_rewards p + points)
        then Inl NumericValueOutOfRange
        else Inr (db
          \<lparr>profiles :=
             map (\<lambda>p. if profile_user_id p = post_user_id NEW
                       then p\<lparr>profile_rewards := profile_rewards p + points\<rparr> else p)
               (profiles db),
           notifications := notifications db @
             [\<lparr>notif_user_id = post_user_id NEW,
               notif_type = ''reward'',
               notif_title = ''Reward Earned! '' @ [CHR 0xF0, CHR 0x9F, CHR 0x8E, CHR 0x89],
               notif_message = ''You earned '' @ numeric_text points
                  @ '' points for creating a '' @ reward_type @ ''!'',
               notif_actor_id = None,
               notif_post_id = Some (post_id NEW)\<rparr>]\<rparr>))"

text \<open>
  \<open>INSERT INTO public.posts\<close> of one row: the check on \<open>content_type\<close> (as the later
  migration widened it), the primary key and the foreign key to \<open>profiles(user_id)\<close>, then the \<open>AFTER INSERT ... FOR EACH ROW\<close> trigger \<open>award_points_on_post\<close>. An
  error leaves the database as it was.
\<close>

definition insert_post :: "post_row \<Rightarrow> database \<Rightarrow> sql_error + database" where
  "insert_post NEW db =
     (if post_content_type NEW \<notin> set [''text'', ''image'', ''video''] then Inl CheckViolation
      else if post_id NEW \<in> set (map post_id (posts db)) then Inl UniqueViolation
      else if post_user_id NEW \<notin> set (map profile_user_id (profiles db)) then Inl ForeignKeyViolation
      else award_post_points NEW (db\<lparr>posts := posts db @ [NEW]\<rparr>))"

text \<open>The rewards of the profile rows of a user (one row, where \<open>user_id\<close> is a key).\<close>

definition rewards_of :: "database \<Rightarrow> uuid \<Rightarrow> int list" where
  "rewards_of db u = map profile_rewards (filter (\<lambda>p. profile_user_id p = u) (profiles db))"

lemma numeric_text_100: "numeric_text 100 = ''1.00''"
  by code_simp

lemma numeric_text_50: "numeric_text 50 = ''0.50''"
  by code_simp

lemma award_profiles:
  assumes "award_post_points NEW db = Inr db'"
  shows "profiles db' =
     map (\<lambda>p. if profile_user_id p = post_user_id NEW
               then p\<lparr>profile_rewards := profile_rewards p + (if post_is_spark NEW then 100 else 50)\<rparr>
               else p) (profiles db)"
  using assms by (auto simp: award_post_points_def Let_def split: if_splits)

lemma award_notifications:
  assumes "award_post_points NEW db = Inr db'"
  shows "notifications db' = notifications db @
     [\<lparr>notif_user_id = post_user_id NEW,
       notif_type = ''reward'',
       notif_title = ''Reward Earned! '' @ [CHR 0xF0, CHR 0x9F, CHR 0x8E, CHR 0x89],
       notif_message = (if post_is_spark NEW then ''You earned 1.00 points for creating a Spark!''
                        else ''You earned 0.50 points for creating a Post!''),
       notif_actor_id = None,
       notif_post_id = Some (post_id NEW)\<rparr>]"
  using assms
  by (auto simp: award_post_points_def Let_def numeric_text_100 numeric_text_50 split: if_splits)

lemma insert_post_runs_trigger:
  assumes "insert_post NEW db = Inr db'"
  shows "award_post_points NEW (db\<lparr>posts := posts db @ [NEW]\<rparr>) = Inr db'
         \<and> post_user_id NEW \<in> set (map profile_user_id (profiles db))"
  using assms by (simp add: insert_post_def split: if_splits)

lemma rewards_of_map:
  "map profile_rewards (filter (\<lambda>p. profile_user_id p = u)
       (map (\<lambda>p. if profile_user_id p = a then p\<lparr>profile_rewards := profile_rewards p + k\<rparr> else p) ps))
   = map (\<lambda>r. if u = a then r + k else r) (map profile_rewards (filter (\<lambda>p. profile_user_id p = u) ps))"
  by (induction ps) auto

text \<open>
  Claim C2. Every insert of a row into \<open>public.posts\<close> that succeeds has run
  \<open>award_post_points\<close> on the new row. The author has a profile, and the insert adds to the
  author's \<open>rewards\<close> exactly 1.00 (100 hundredths) when \<open>is_spark\<close> is true and exactly 0.50
  (50 hundredths) when it is false; the rewards of every other user and the set of
  profiles are unchanged.
\<close>

theorem post_insert_awards_points:
  assumes "insert_post NEW db = Inr db'"
  shows "award_post_points NEW (db\<lparr>posts := posts db @ [NEW]\<rparr>) = Inr db'
     \<and> rewards_of db (post_user_id NEW) \<noteq> []
     \<and> rewards_of db' (post_user_id NEW)
         = map (\<lambda>r. r + (if post_is_spark NEW then 100 else 50)) (rewards_of db (post_user_id NEW))
     \<and> (\<forall>u. u \<noteq> post_user_id NEW \<longrightarrow> rewards_of db' u = rewards_of db u)
     \<and> map profile_user_id (profiles db') = map profile_user_id (profiles db)"
proof -
  from insert_post_runs_trigger [OF assms]
  have t: "award_post_points NEW (db\<lparr>posts := posts db @ [NEW]\<rparr>) = Inr db'"
    and fk: "post_user_id NEW \<in> set (map profile_user_id (profiles db))" by simp_all
  have p: "profiles db' =
     map (\<lambda>p. if profile_user_id p = post_user_id NEW
               then p\<lparr>profile_rewards := profile_rewards p + (if post_is_spark NEW then 100 else 50)\<rparr>
               else p) (profiles db)"
    using award_profiles [OF t] by simp
  have ne: "rewards_of db (post_user_id NEW) \<noteq> []"
    using fk by (auto simp: rewards_of_def filter_empty_conv)
  have own: "rewards_of db' (post_user_id NEW)
         = map (\<lambda>r. r + (if post_is_spark NEW then 100 else 50)) (rewards_of db (post_user_id NEW))"
    unfolding rewards_of_def p rewards_of_map by simp
  have others: "\<forall>u. u \<noteq> post_user_id NEW \<longrightarrow> rewards_of db' u = rewards_of db u"
    unfolding rewards_of_def p rewards_of_map by simp
  have ids: "map profile_user_id (profiles db') = map profile_user_id (profiles db)"
    unfolding p by (induction "profiles db") auto
  from t ne own others ids show ?thesis by blast
qed

theorem post_insert_awards_points_witness:
  "insert_post
     \<lparr>post_id = ''p1'', post_user_id = ''u1'', post_content_type = ''video'', post_content_url = None,
      post_caption = None, post_created_at = 0, post_updated_at = 0, post_is_spark = True\<rparr>
     \<lparr>profiles = [\<lparr>profile_user_id = ''u1'', profile_rewards = 250\<rparr>,
                  \<lparr>profile_user_id = ''u2'', profile_rewards = 0\<rparr>],
      posts = [], notifications = [], stories = []\<rparr>
   = Inr \<lparr>profiles = [\<lparr>profile_user_id = ''u1'', profile_rewards = 350\<rparr>,
                  \<lparr>profile_user_id = ''u2'', profile_rewards = 0\<rparr>],
      posts = [\<lparr>post_id = ''p1'', post_user_id = ''u1'', post_content_type = ''video'',
                post_content_url = None, post_caption = None, post_created_at = 0,
                post_updated_at = 0, post_is_spark = True\<rparr>],
      notifications = [\<lparr>notif_user_id = ''u1'', notif_type = ''reward'',
                notif_title = ''Reward Earned! '' @ [CHR 0xF0, CHR 0x9F, CHR 0x8E, CHR 0x89],
                notif_message = ''You earned 1.00 points for creating a Spark!'',
                notif_actor_id = None, notif_post_id = Some ''p1''\<rparr>],
      stories = []\<rparr>
   \<and> rewards_of \<lparr>profiles = [\<lparr>profile_user_id = ''u1'', profile_rewards = 350\<rparr>,
                  \<lparr>profile_user_id = ''u2'', profile_rewards = 0\<rparr>],
      posts = [\<lparr>post_id = ''p1'', post_user_id = ''u1'', post_content_type = ''video'',
                post_content_url = None, post_caption = None, post_created_at = 0,
                post_updated_at = 0, post_is_spark = True\<rparr>],
      notifications = [\<lparr>notif_user_id = ''u1'', notif_type = ''reward'',
                notif_title = ''Reward Earned! '' @ [CHR 0xF0, CHR 0x9F, CHR 0x8E, CHR 0x89],
                notif_message = ''You earned 1.00 points for creating a Spark!'',
                notif_actor_id = None, notif_post_id = Some ''p1''\<rparr>],
      stories = []\<rparr> ''u1'' = [350]"
proof -
  have h: "insert_post
     \<lparr>post_id = ''p1'', post_user_id = ''u1'', post_content_type = ''video'', post_content_url = None,
      post_caption = None, post_created_at = 0, post_updated_at = 0, post_is_spark = True\<rparr>
     \<lparr>profiles = [\<lparr>profile_user_id = ''u1'', profile_rewards = 250\<rparr>,
                  \<lparr>profile_user_id = ''u2'', profile_rewards = 0\<rparr>],
      posts = [], notifications = [], stories = []\<rparr>
   = Inr \<lparr>profiles = [\<lparr>profile_user_id = ''u1'', profile_rewards = 350\<rparr>,
                  \<lparr>profile_user_id = ''u2'', profile_rewards = 0\<rparr>],
      posts = [\<lparr>post_id = ''p1'', post_user_id = ''u1'', post_content_type = ''video'',
                post_content_url = None, post_caption = None, post_created_at = 0,
                post_updated_at = 0, post_is_spark = True\<rparr>],
      notifications = [\<lparr>notif_user_id = ''u1'', notif_type = ''reward'',
                notif_title = ''Reward Earned! '' @ [CHR 0xF0, CHR 0x9F, CHR 0x8E, CHR 0x89],
                notif_message = ''You earned 1.00 points for creating a Spark!'',
                notif_actor_id = None, notif_post_id = Some ''p1''\<rparr>],
      stories = []\<rparr>"
    by (simp add: insert_post_def award_post_points_def decimal_10_2_def numeric_text_100)
  show ?thesis
    using h post_insert_awards_points [OF h] by (simp add: rewards_of_def)
qed

text \<open>
  Claim C4. Every insert of a row into \<open>public.posts\<close> that succeeds appends exactly one
  row to \<open>public.notifications\<close>: its \<open>user_id\<close> is the author of the post, its \<open>type\<close> is
  \<open>reward\<close>, its \<open>post_id\<close> is the id of the new post, and its message names the points
  awarded, \<open>1.00\<close> for a Spark and \<open>0.50\<close> for a Post.
\<close>

theorem post_insert_notifies:
  assumes "insert_post NEW db = Inr db'"
  shows "notifications db' = notifications db @
     [\<lparr>notif_user_id = post_user_id NEW,
       notif_type = ''reward'',
       notif_title = ''Reward Earned! '' @ [CHR 0xF0, CHR 0x9F, CHR 0x8E, CHR 0x89],
       notif_message = (if post_is_spark NEW then ''You earned 1.00 points for creating a Spark!''
                        else ''You earned 0.50 points for creating a Post!''),
       notif_actor_id = None,
       notif_post_id = Some (post_id NEW)\<rparr>]
     \<and> length (notifications db') = length (notifications db) + 1"
proof -
  from insert_post_runs_trigger [OF assms]
  have t: "award_post_points NEW (db\<lparr>posts := posts db @ [NEW]\<rparr>) = Inr db'" by simp
  from award_notifications [OF t] show ?thesis by simp
qed

theorem post_insert_notifies_witness:
  "insert_post
     \<lparr>post_id = ''p2'', post_user_id = ''u2'', post_content_type = ''text'', post_content_url = None,
      post_caption = Some ''hello'', post_created_at = 7, post_updated_at = 7, post_is_spark = False\<rparr>
     \<lparr>profiles = [\<lparr>profile_user_id = ''u2'', profile_rewards = 0\<rparr>],
      posts = [], notifications = [], stories = []\<rparr>
   = Inr \<lparr>profiles = [\<lparr>profile_user_id = ''u2'', profile_rewards = 50\<rparr>],
      posts = [\<lparr>post_id = ''p2'', post_user_id = ''u2'', post_content_type = ''text'',
                post_content_url = None, post_caption = Some ''hello'', post_created_at = 7,
                post_updated_at = 7, post_is_spark = False\<rparr>],
      notifications = [\<lparr>notif_user_id = ''u2'', notif_type = ''reward'',
                notif_title = ''Reward Earned! '' @ [CHR 0xF0, CHR 0x9F, CHR 0x8E, CHR 0x89],
                notif_message = ''You earned 0.50 points for creating a Post!'',
                notif_actor_id = None, notif_post_id = Some ''p2''\<rparr>],
      stories = []\<rparr>"
proof -
  have h: "insert_post
     \<lparr>post_id = ''p2'', post_user_id = ''u2'', post_content_type = ''text'', post_content_url = None,
      post_caption = Some ''hello'', post_created_at = 7, post_updated_at = 7, post_is_spark = False\<rparr>
     \<lparr>profiles = [\<lparr>profile_user_id = ''u2'', profile_rewards = 0\<rparr>],
      posts = [], notifications = [], stories = []\<rparr>
   = Inr \<lparr>profiles = [\<lparr>profile_user_id = ''u2'', profile_rewards = 50\<rparr>],
      posts = [\<lparr>post_id = ''p2'', post_user_id = ''u2'', post_content_type = ''text'',
                post_content_url = None, post_caption = Some ''hello'', post_created_at = 7,
                post_updated_at = 7, post_is_spark = False\<rparr>],
      notifications = [\<lparr>notif_user_id = ''u2'', notif_type = ''reward'',
                notif_title = ''Reward Earned! '' @ [CHR 0xF0, CHR 0x9F, CHR 0x8E, CHR 0x89],
                notif_message = ''You earned 0.50 points for creating a Post!'',
                notif_actor_id = None, notif_post_id = Some ''p2''\<rparr>],
      stories = []\<rparr>"
    by (simp add: insert_post_def award_post_points_def decimal_10_2_def numeric_text_50)
  show ?thesis
    using h post_insert_notifies [OF h] by simp
qed

subsection \<open>Timestamps of posts (update\_posts\_updated\_at)\<close>

text \<open>
  Modelled from the spec: the body of \<open>public.update_updated_at_column\<close>, which a migration
  that is not among the sources defines. The spec calls it timestamp maintenance: the
  function sets \<open>updated_at\<close> of the new row to the current time \<open>now()\<close> and returns the
  row.
\<close>

definition update_updated_at_column :: "timestamptz \<Rightarrow> post_row \<Rightarrow> post_row" where
  "update_updated_at_column now NEW = NEW\<lparr>post_updated_at := now\<rparr>"

text \<open>
  \<open>UPDATE public.posts SET ... WHERE ...\<close>: for every row \<open>OLD\<close> that satisfies the
  condition, the new row is the row with the assignments applied, passed through the
  \<open>BEFORE UPDATE ... FOR EACH ROW\<close> trigger \<open>update_posts_updated_at\<close>. The constraints of
  the table are checked on the rows written; an error leaves the database as it was.
\<close>

definition update_posts :: "timestamptz \<Rightarrow> (post_row \<Rightarrow> bool) \<Rightarrow> (post_row \<Rightarrow> post_row) \<Rightarrow> database \<Rightarrow> sql_error + database" where
  "update_posts now cond assign db =
     (let rows = map (\<lambda>OLD. if cond OLD then update_updated_at_column now (assign OLD) else OLD)
                   (posts db);
          written = map (\<lambda>OLD. update_updated_at_column now (assign OLD)) (filter cond (posts db))
      in
        if \<exists>r \<in> set written. post_content_type r \<notin> set [''text'', ''image'', ''video'']
        then Inl CheckViolation
        else if \<not> distinct (map post_id rows) then Inl UniqueViolation
        else if \<exists>r \<in> set written. post_user_id r \<notin> set (map profile_user_id (profiles db))
        then Inl ForeignKeyViolation
        else Inr (db\<lparr>posts := rows\<rparr>))"

text \<open>
  Claim C5. An \<open>UPDATE\<close> of \<open>public.posts\<close> that succeeds passes every row it writes
  through the \<open>BEFORE UPDATE\<close> trigger \<open>update_posts_updated_at\<close>, which runs
  \<open>update_updated_at_column\<close>: the row stored has \<open>updated_at\<close> equal to the time of the
  update, whatever the statement assigned to the column, and the rows that the condition
  does not select are unchanged.
\<close>

theorem update_posts_sets_updated_at:
  assumes "update_posts now cond assign db = Inr db'"
  shows "length (posts db') = length (posts db)
     \<and> (\<forall>i < length (posts db).
          (cond (posts db ! i) \<longrightarrow>
             posts db' ! i = update_updated_at_column now (assign (posts db ! i))
             \<and> post_updated_at (posts db' ! i) = now)
          \<and> (\<not> cond (posts db ! i) \<longrightarrow> posts db' ! i = posts db ! i))"
proof -
  have p: "posts db' = map (\<lambda>OLD. if cond OLD then update_updated_at_column now (assign OLD) else OLD)
                   (posts db)"
    using assms by (auto simp: update_posts_def Let_def split: if_splits)
  show ?thesis unfolding p by (simp add: update_updated_at_column_def)
qed

theorem update_posts_sets_updated_at_witness:
  "update_posts 5000000 (\<lambda>r. post_id r = ''p1'') (\<lambda>r. r\<lparr>post_caption := Some ''edited'', post_updated_at := 0\<rparr>)
     \<lparr>profiles = [\<lparr>profile_user_id = ''u1'', profile_rewards = 50\<rparr>],
      posts = [\<lparr>post_id = ''p1'', post_user_id = ''u1'', post_content_type = ''text'',
                post_content_url = None, post_caption = Some ''hello'', post_created_at = 7,
                post_updated_at = 7, post_is_spark = False\<rparr>],
      notifications = [], stories = []\<rparr>
   = Inr \<lparr>profiles = [\<lparr>profile_user_id = ''u1'', profile_rewards = 50\<rparr>],
      posts = [\<lparr>post_id = ''p1'', post_user_id = ''u1'', post_content_type = ''text'',
                post_content_url = None, post_caption = Some ''edited'', post_created_at = 7,
                post_updated_at = 5000000, post_is_spark = False\<rparr>],
      notifications = [], stories = []\<rparr>"
proof -
  have h: "update_posts 5000000 (\<lambda>r. post_id r = ''p1'') (\<lambda>r. r\<lparr>post_caption := Some ''edited'', post_updated_at := 0\<rparr>)
     \<lparr>profiles = [\<lparr>profile_user_id = ''u1'', profile_rewards = 50\<rparr>],
      posts = [\<lparr>post_id = ''p1'', post_user_id = ''u1'', post_content_type = ''text'',
                post_content_url = None, post_caption = Some ''hello'', post_created_at = 7,
                post_updated_at = 7, post_is_spark = False\<rparr>],
      notifications = [], stories = []\<rparr>
   = Inr \<lparr>profiles = [\<lparr>profile_user_id = ''u1'', profile_rewards = 50\<rparr>],
      posts = [\<lparr>post_id = ''p1'', post_user_id = ''u1'', post_content_type = ''text'',
                post_content_url = None, post_caption = Some ''edited'', post_created_at = 7,
                post_updated_at = 5000000, post_is_spark = False\<rparr>],
      notifications = [], stories = []\<rparr>"
    by (simp add: update_posts_def update_updated_at_column_def)
  show ?thesis using h update_posts_sets_updated_at [OF h] by simp
qed

subsection \<open>Stories\<close>

text \<open>
  The values of an \<open>INSERT INTO public.stories\<close>: a column with a default may be left
  out (\<open>None\<close>). \<open>caption\<close> has no default and may be \<open>NULL\<close>.
\<close>

record story_values =
  sv_id :: "uuid option"
  sv_user_id :: uuid
  sv_content_url :: string
  sv_content_type :: string
  sv_caption :: "string option"
  sv_created_at :: "timestamptz option"
  sv_expires_at :: "timestamptz option"

text \<open>\<open>INTERVAL '24 hours'\<close> in microseconds.\<close>

definition interval_24_hours :: int where
  "interval_24_hours = 24 * 60 * 60 * 1000000"

text \<open>
  The insert at time \<open>now\<close> (the value of \<open>now()\<close>, the same in both defaults of one
  statement); \<open>fresh\<close> is the value of \<open>gen_random_uuid()\<close>.
\<close>

definition insert_story :: "timestamptz \<Rightarrow> uuid \<Rightarrow> story_values \<Rightarrow> database \<Rightarrow> sql_error + database" where
  "insert_story now fresh v db =
     (let row =
        \<lparr>story_id = (case sv_id v of None \<Rightarrow> fresh | Some i \<Rightarrow> i),
         story_user_id = sv_user_id v,
         story_content_url = sv_content_url v,
         story_content_type = sv_content_type v,
         story_caption = sv_caption v,
         story_created_at = (case sv_created_at v of None \<Rightarrow> now | Some t \<Rightarrow> t),
         story_expires_at = (case sv_expires_at v of None \<Rightarrow> now + interval_24_hours | Some t \<Rightarrow> t)\<rparr>
      in
        if story_id row \<in> set (map story_id (stories db)) then Inl UniqueViolation
        else if story_user_id row \<notin> set (map profile_user_id (profiles db)) then Inl ForeignKeyViolation
        else Inr (db\<lparr>stories := stories db @ [row]\<rparr>))"

text \<open>
  The policy \<open>Stories are viewable by everyone\<close>, \<open>FOR SELECT USING (expires_at > now())\<close>,
  the only \<open>SELECT\<close> policy of the table, and a \<open>SELECT\<close> under it at time \<open>now\<close>.
\<close>

definition stories_viewable :: "timestamptz \<Rightarrow> story_row \<Rightarrow> bool" where
  "stories_viewable now r = (story_expires_at r > now)"

definition select_stories :: "timestamptz \<Rightarrow> database \<Rightarrow> story_row list" where
  "select_stories now db = filter (stories_viewable now) (stories db)"

text \<open>
  Claim C10, as the code has it. A row inserted into \<open>public.stories\<close> without an explicit
  \<open>expires_at\<close> gets \<open>expires_at = now() + 24 hours\<close>, \<open>now()\<close> being the time of the
  insert; this is \<open>created_at + 24 hours\<close> when \<open>created_at\<close> is left to its default too.
  The \<open>SELECT\<close> policy of the table lets a story be read at time \<open>t\<close> if and only if
  \<open>t\<close> is strictly before its \<open>expires_at\<close>, so that the row just inserted is readable
  exactly until 24 hours after the insert.
\<close>

theorem stories_expire_after_24_hours:
  assumes "insert_story now fresh v db = Inr db'" and "sv_expires_at v = None"
  shows "stories db' \<noteq> [] \<and> butlast (stories db') = stories db
     \<and> story_expires_at (last (stories db')) = now + 24 * 60 * 60 * 1000000
     \<and> (sv_created_at v = None \<longrightarrow>
          story_expires_at (last (stories db')) = story_created_at (last (stories db')) + 24 * 60 * 60 * 1000000)
     \<and> (\<forall>t. last (stories db') \<in> set (select_stories t db') \<longleftrightarrow> t < now + 24 * 60 * 60 * 1000000)
     \<and> (\<forall>t r. stories_viewable t r \<longleftrightarrow> t < story_expires_at r)
     \<and> (\<forall>t d. set (select_stories t d) = {r \<in> set (stories d). t < story_expires_at r})"
proof -
  define row where "row =
        \<lparr>story_id = (case sv_id v of None \<Rightarrow> fresh | Some i \<Rightarrow> i),
         story_user_id = sv_user_id v,
         story_content_url = sv_content_url v,
         story_content_type = sv_content_type v,
         story_caption = sv_caption v,
         story_created_at = (case sv_created_at v of None \<Rightarrow> now | Some t \<Rightarrow> t),
         story_expires_at = now + interval_24_hours\<rparr>"
  have s: "stories db' = stories db @ [row]"
    using assms by (auto simp: insert_story_def Let_def row_def split: if_splits)
  have e: "story_expires_at row = now + 24 * 60 * 60 * 1000000"
    by (simp add: row_def interval_24_hours_def)
  have c: "sv_created_at v = None \<longrightarrow> story_created_at row = now"
    by (simp add: row_def)
  have v: "\<forall>t. row \<in> set (select_stories t db') \<longleftrightarrow> t < now + 24 * 60 * 60 * 1000000"
    using e by (auto simp: select_stories_def s stories_viewable_def)
  have pol: "\<forall>t r. stories_viewable t r \<longleftrightarrow> t < story_expires_at r"
    by (auto simp: stories_viewable_def)
  have sel: "\<forall>t d. set (select_stories t d) = {r \<in> set (stories d). t < story_expires_at r}"
    by (auto simp: select_stories_def stories_viewable_def)
  from s e c v pol sel show ?thesis by simp
qed

theorem stories_expire_after_24_hours_witness:
  "insert_story 1000000 ''s1''
     \<lparr>sv_id = None, sv_user_id = ''u1'', sv_content_url = ''https://x/sparks/u1/1.jpg'',
      sv_content_type = ''image'', sv_caption = None, sv_created_at = None, sv_expires_at = None\<rparr>
     \<lparr>profiles = [\<lparr>profile_user_id = ''u1'', profile_rewards = 0\<rparr>],
      posts = [], notifications = [], stories = []\<rparr>
   = Inr \<lparr>profiles = [\<lparr>profile_user_id = ''u1'', profile_rewards = 0\<rparr>],
      posts = [], notifications = [],
      stories = [\<lparr>story_id = ''s1'', story_user_id = ''u1'',
                  story_content_url = ''https://x/sparks/u1/1.jpg'', story_content_type = ''image'',
                  story_caption = None, story_created_at = 1000000,
                  story_expires_at = 86401000000\<rparr>]\<rparr>
   \<and> select_stories 86400999999 \<lparr>profiles = [\<lparr>profile_user_id = ''u1'', profile_rewards = 0\<rparr>],
      posts = [], notifications = [],
      stories = [\<lparr>story_id = ''s1'', story_user_id = ''u1'',
                  story_content_url = ''https://x/sparks/u1/1.jpg'', story_content_type = ''image'',
                  story_caption = None, story_created_at = 1000000,
                  story_expires_at = 86401000000\<rparr>]\<rparr>
      = [\<lparr>story_id = ''s1'', story_user_id = ''u1'',
                  story_content_url = ''https://x/sparks/u1/1.jpg'', story_content_type = ''image'',
                  story_caption = None, story_created_at = 1000000,
                  story_expires_at = 86401000000\<rparr>]
   \<and> select_stories 86401000000 \<lparr>profiles = [\<lparr>profile_user_id = ''u1'', profile_rewards = 0\<rparr>],
      posts = [], notifications = [],
      stories = [\<lparr>story_id = ''s1'', story_user_id = ''u1'',
                  story_content_url = ''https://x/sparks/u1/1.jpg'', story_content_type = ''image'',
                  story_caption = None, story_created_at = 1000000,
                  story_expires_at = 86401000000\<rparr>]\<rparr> = []"
proof -
  have h: "insert_story 1000000 ''s1''
     \<lparr>sv_id = None, sv_user_id = ''u1'', sv_content_url = ''https://x/sparks/u1/1.jpg'',
      sv_content_type = ''image'', sv_caption = None, sv_created_at = None, sv_expires_at = None\<rparr>
     \<lparr>profiles = [\<lparr>profile_user_id = ''u1'', profile_rewards = 0\<rparr>],
      posts = [], notifications = [], stories = []\<rparr>
   = Inr \<lparr>profiles = [\<lparr>profile_user_id = ''u1'', profile_rewards = 0\<rparr>],
      posts = [], notifications = [],
      stories = [\<lparr>story_id = ''s1'', story_user_id = ''u1'',
                  story_content_url = ''https://x/sparks/u1/1.jpg'', story_content_type = ''image'',
                  story_caption = None, story_created_at = 1000000,
                  story_expires_at = 86401000000\<rparr>]\<rparr>"
    by (simp add: insert_story_def interval_24_hours_def)
  have n: "sv_expires_at \<lparr>sv_id = None, sv_user_id = ''u1'', sv_content_url = ''https://x/sparks/u1/1.jpg'',
      sv_content_type = ''image'', sv_caption = None, sv_created_at = None, sv_expires_at = None\<rparr> = None"
    by simp
  show ?thesis
    using h stories_expire_after_24_hours [OF h n]
    by (simp add: select_stories_def stories_viewable_def)
qed

text \<open>
  The claim as it is written fails for a row that gives \<open>created_at\<close> and leaves
  \<open>expires_at\<close> out: inserted one second after the epoch with \<open>created_at = 0\<close>, the row
  expires 24 hours after the insert, not 24 hours after \<open>created_at\<close>.
\<close>

theorem stories_expire_after_24_hours_counterexample:
  "(case insert_story 1000000 ''s1''
       \<lparr>sv_id = None, sv_user_id = ''u1'', sv_content_url = ''https://x/sparks/u1/1.jpg'',
        sv_content_type = ''image'', sv_caption = None, sv_created_at = Some 0, sv_expires_at = None\<rparr>
       \<lparr>profiles = [\<lparr>profile_user_id = ''u1'', profile_rewards = 0\<rparr>],
        posts = [], notifications = [], stories = []\<rparr>
    of Inl e \<Rightarrow> False
     | Inr db' \<Rightarrow>
         story_created_at (last (stories db')) = 0
         \<and> story_expires_at (last (stories db')) = 86401000000
         \<and> story_expires_at (last (stories db'))
             \<noteq> story_created_at (last (stories db')) + 24 * 60 * 60 * 1000000)"
  by (simp add: insert_story_def interval_24_hours_def)

section \<open>The handlers of FeedCard (src/components/feed/FeedCard.tsx)\<close>

text \<open>
  An awaited call of the provider's client either rejects with an error or resolves with
  a reply \<open>{ data, error }\<close>. Of \<open>data\<close> the handlers read one string at most: the id of
  the user for \<open>auth.getUser()\<close> (\<open>None\<close> when \<open>user\<close> is \<open>null\<close>), the \<open>display_name\<close> for
  the profile query (\<open>None\<close> when the profile or the name is \<open>null\<close>).
\<close>

type_synonym err = string

datatype 'a promise = Rejects err | Resolves 'a

record reply =
  reply_data :: "string option"
  reply_error :: "err option"

text \<open>
  The calls the handlers await, with the values they send: the table and operation, the
  filters of \<open>eq\<close> and the row of \<open>insert\<close>. \<open>StorageRemove\<close> is
  \<open>supabase.storage.from(bucket).remove([filePath])\<close>.
\<close>

datatype request =
    AuthGetUser
  | LikesDelete string string
  | LikesInsert string string
  | ProfilesSelectDisplayName string
  | NotificationsInsert notification_row
  | CommentsInsert string string string
  | CommentsDelete string
  | StorageRemove "string option" string
  | PostsDelete string
  | PinnedPostsDelete string string
  | PinnedPostsInsert string string

datatype variant = DefaultVariant | Destructive

text \<open>
  What a handler does, in order: the calls it awaits, the toasts (title, description,
  variant), the console messages, the state setters and the callback of the parent.
\<close>

datatype effect =
    Await request
  | Toast string string variant
  | ConsoleError string err
  | SetSubmittingComment bool
  | SetNewComment string
  | SetDeleting bool
  | SetShowDeleteDialog bool
  | SetIsPinned bool
  | SetPinning bool
  | OnPostDeleted string

text \<open>How the promise of an \<open>async\<close> handler settles.\<close>

datatype completion = Returns | Throws err

text \<open>The fields of the prop \<open>post\<close> that the handlers read: \<open>id\<close>, \<open>authorId\<close>, \<open>content.url\<close>.\<close>

record FeedPost =
  feed_id :: string
  authorId :: string
  content_url :: "string option"

text \<open>
  The body of a \<open>try\<close> block is a list of effects and the error thrown, if any.
  \<open>await env r k\<close> awaits the call \<open>r\<close>: a rejection is thrown at the \<open>await\<close>, a reply is
  passed to the rest \<open>k\<close> of the block.
\<close>

definition await :: "(request \<Rightarrow> reply promise) \<Rightarrow> request \<Rightarrow> (reply \<Rightarrow> effect list \<times> err option) \<Rightarrow> effect list \<times> err option" where
  "await env r k =
     (case env r of
        Rejects e \<Rightarrow> ([Await r], Some e)
      | Resolves v \<Rightarrow> (Await r # fst (k v), snd (k v)))"

text \<open>\<open>try { body } catch (error) { handler }\<close>, with a handler that does not throw.\<close>

definition try_catch :: "effect list \<times> err option \<Rightarrow> (err \<Rightarrow> effect list) \<Rightarrow> effect list" where
  "try_catch body handler = fst body @ (case snd body of None \<Rightarrow> [] | Some e \<Rightarrow> handler e)"

text \<open>\<open>s.trim()\<close>: white space and line terminators, as far as they are single bytes.\<close>

definition whiteSpace :: "char \<Rightarrow> bool" where
  "whiteSpace c = (c \<in> set [CHR 0x09, CHR 0x0A, CHR 0x0B, CHR 0x0C, CHR 0x0D, CHR 0x20, CHR 0xA0])"

definition trim :: "string \<Rightarrow> string" where
  "trim s = rev (dropWhile whiteSpace (rev (dropWhile whiteSpace s)))"

text \<open>\<open>parts.join(sep)\<close>\<close>

fun join :: "string list \<Rightarrow> string \<Rightarrow> string" where
  "join [] sep = []"
| "join [p] sep = p"
| "join (p # q # ps) sep = p @ sep @ join (q # ps) sep"

definition handleLike :: "FeedPost \<Rightarrow> bool \<Rightarrow> (request \<Rightarrow> reply promise) \<Rightarrow> effect list \<times> completion" where
  "handleLike post isLiked env =
     (case env AuthGetUser of
        Rejects e \<Rightarrow> ([Await AuthGetUser], Throws e)
      | Resolves u \<Rightarrow>
          (case reply_data u of
             None \<Rightarrow>
               ([Await AuthGetUser,
                 Toast ''Not authenticated'' ''Please log in to like posts'' Destructive], Returns)
           | Some user_id \<Rightarrow>
               (Await AuthGetUser #
                try_catch
                  (if isLiked
                   then await env (LikesDelete (feed_id post) user_id) (\<lambda>r. ([], None))
                   else await env (LikesInsert (feed_id post) user_id) (\<lambda>r.
                     if user_id \<noteq> authorId post
                     then await env (ProfilesSelectDisplayName user_id) (\<lambda>profile.
                            await env (NotificationsInsert
                              \<lparr>notif_user_id = authorId post,
                                notif_type = ''like'',
                                notif_title = ''New Like'',
                                notif_message = or_else (reply_data profile) ''Someone'' @ '' liked your post'',
                                notif_actor_id = Some user_id,
                                notif_post_id = Some (feed_id post)\<rparr>) (\<lambda>r. ([], None)))
                     else ([], None)))
                  (\<lambda>e. [ConsoleError ''Error toggling like:'' e,
                        Toast ''Error'' ''Failed to update like'' Destructive]),
                Returns)))"

definition handleAddComment :: "FeedPost \<Rightarrow> string \<Rightarrow> (request \<Rightarrow> reply promise) \<Rightarrow> effect list \<times> completion" where
  "handleAddComment post newComment env =
     (if trim newComment = [] then ([], Returns)
      else
        (case env AuthGetUser of
           Rejects e \<Rightarrow> ([Await AuthGetUser], Throws e)
         | Resolves u \<Rightarrow>
             (case reply_data u of
                None \<Rightarrow>
                  ([Await AuthGetUser,
                    Toast ''Not authenticated'' ''Please log in to comment'' Destructive], Returns)
              | Some user_id \<Rightarrow>
                  ([Await AuthGetUser, SetSubmittingComment True] @
                   try_catch
                     (await env (CommentsInsert (feed_id post) user_id (trim newComment)) (\<lambda>r.
                        case reply_error r of
                          Some e \<Rightarrow> ([], Some e)
                        | None \<Rightarrow>
                            (let notify =
                               (if user_id \<noteq> authorId post
                                then await env (ProfilesSelectDisplayName user_id) (\<lambda>profile.
                                       await env (NotificationsInsert
                                         \<lparr>notif_user_id = authorId post,
                                           notif_type = ''comment'',
                                           notif_title = ''New Comment'',
                                           notif_message = or_else (reply_data profile) ''Someone''
                                              @ '' commented on your post'',
                                           notif_actor_id = Some user_id,
                                           notif_post_id = Some (feed_id post)\<rparr>) (\<lambda>r. ([], None)))
                                else ([], None))
                             in case snd notify of
                                  Some e \<Rightarrow> notify
                                | None \<Rightarrow>
                                    (fst notify @
                                     [SetNewComment [],
                                      Toast ''Comment added'' ''Your comment has been posted'' DefaultVariant],
                                     None))))
                     (\<lambda>e. [ConsoleError ''Error adding comment:'' e,
                           Toast ''Error'' ''Failed to add comment'' Destructive])
                   @ [SetSubmittingComment False],
                   Returns))))"

definition handleDeleteComment :: "string \<Rightarrow> (request \<Rightarrow> reply promise) \<Rightarrow> effect list \<times> completion" where
  "handleDeleteComment commentId env =
     (try_catch
        (await env (CommentsDelete commentId) (\<lambda>r.
           case reply_error r of
             Some e \<Rightarrow> ([], Some e)
           | None \<Rightarrow> ([Toast ''Comment deleted'' ''Your comment has been removed'' DefaultVariant], None)))
        (\<lambda>e. [ConsoleError ''Error deleting comment:'' e,
              Toast ''Error'' ''Failed to delete comment'' Destructive]),
      Returns)"

text \<open>
  \<open>handleDeletePost\<close>: \<open>urlParts[urlParts.length - 3]\<close> is \<open>undefined\<close> when the URL has
  fewer than three parts, \<open>urlParts.slice(-2)\<close> are the last two parts (all of them when
  there are fewer). \<open>onPostDeleted\<close> tells whether the prop is given.
\<close>

definition handleDeletePost :: "FeedPost \<Rightarrow> bool \<Rightarrow> (request \<Rightarrow> reply promise) \<Rightarrow> effect list \<times> completion" where
  "handleDeletePost post onPostDeleted env =
     ([SetDeleting True] @
      try_catch
        (let deletePost =
           await env (PostsDelete (feed_id post)) (\<lambda>r.
             case reply_error r of
               Some e \<Rightarrow> ([], Some e)
             | None \<Rightarrow>
                 ([Toast ''Post deleted'' ''Your post has been removed'' DefaultVariant]
                  @ (if onPostDeleted then [OnPostDeleted (feed_id post)] else []), None))
         in
           if or_else (content_url post) [] \<noteq> []
           then
             (let urlParts = split (or_else (content_url post) []) CHR ''/'';
                  bucket = (if 3 \<le> length urlParts then Some (urlParts ! (length urlParts - 3)) else None);
                  filePath = join (drop (length urlParts - 2) urlParts) ''/''
              in await env (StorageRemove bucket filePath) (\<lambda>r. deletePost))
           else deletePost)
        (\<lambda>e. [ConsoleError ''Error deleting post:'' e,
              Toast ''Error'' ''Failed to delete post'' Destructive])
      @ [SetDeleting False, SetShowDeleteDialog False],
      Returns)"

definition handleTogglePin :: "FeedPost \<Rightarrow> bool \<Rightarrow> (request \<Rightarrow> reply promise) \<Rightarrow> effect list \<times> completion" where
  "handleTogglePin post isPinned env =
     (case env AuthGetUser of
        Rejects e \<Rightarrow> ([Await AuthGetUser], Throws e)
      | Resolves u \<Rightarrow>
          (case reply_data u of
             None \<Rightarrow>
               ([Await AuthGetUser,
                 Toast ''Not authenticated'' ''Please log in to pin posts'' Destructive], Returns)
           | Some user_id \<Rightarrow>
               ([Await AuthGetUser, SetPinning True] @
                try_catch
                  (if isPinned
                   then await env (PinnedPostsDelete user_id (feed_id post)) (\<lambda>r.
                          ([SetIsPinned False,
                            Toast ''Post unpinned'' ''Post removed from your pinned collection'' DefaultVariant],
                           None))
                   else await env (PinnedPostsInsert user_id (feed_id post)) (\<lambda>r.
                          ([SetIsPinned True,
                            Toast ''Post pinned'' ''Post added to your pinned collection'' DefaultVariant],
                           None)))
                  (\<lambda>e. [ConsoleError ''Error toggling pin:'' e,
                        Toast ''Error'' ''Failed to update pin status'' Destructive])
                @ [SetPinning False],
                Returns)))"

text \<open>The calls a handler awaited, those of them that rejected, and the rows sent to \<open>notifications\<close>.\<close>

fun awaited :: "effect list \<Rightarrow> request list" where
  "awaited [] = []"
| "awaited (Await r # effs) = r # awaited effs"
| "awaited (eff # effs) = awaited effs"

definition rejects :: "(request \<Rightarrow> reply promise) \<Rightarrow> request \<Rightarrow> bool" where
  "rejects env r = (case env r of Rejects e \<Rightarrow> True | Resolves v \<Rightarrow> False)"

fun notificationInserts :: "effect list \<Rightarrow> notification_row list" where
  "notificationInserts [] = []"
| "notificationInserts (Await (NotificationsInsert n) # effs) = n # notificationInserts effs"
| "notificationInserts (eff # effs) = notificationInserts effs"

subsection \<open>Rejected calls\<close>

lemma handleDeleteComment_catches:
  "snd (handleDeleteComment commentId env) = Returns
   \<and> ((\<exists>r \<in> set (awaited (fst (handleDeleteComment commentId env))). rejects env r) \<longrightarrow>
        Toast ''Error'' ''Failed to delete comment'' Destructive
          \<in> set (fst (handleDeleteComment commentId env)))"
  by (auto simp: handleDeleteComment_def await_def try_catch_def rejects_def
           split: promise.splits option.splits)

lemma handleDeletePost_catches:
  "snd (handleDeletePost post onPostDeleted env) = Returns
   \<and> ((\<exists>r \<in> set (awaited (fst (handleDeletePost post onPostDeleted env))). rejects env r) \<longrightarrow>
        Toast ''Error'' ''Failed to delete post'' Destructive
          \<in> set (fst (handleDeletePost post onPostDeleted env)))"
  by (auto simp: handleDeletePost_def await_def try_catch_def rejects_def Let_def
           split: promise.splits option.splits)

lemma handleLike_catches:
  "\<not> rejects env AuthGetUser \<Longrightarrow>
   snd (handleLike post isLiked env) = Returns
   \<and> ((\<exists>r \<in> set (awaited (fst (handleLike post isLiked env))). rejects env r) \<longrightarrow>
        Toast ''Error'' ''Failed to update like'' Destructive
          \<in> set (fst (handleLike post isLiked env)))"
  by (auto simp: handleLike_def await_def try_catch_def rejects_def
           split: promise.splits option.splits)

lemma handleAddComment_catches:
  "\<not> rejects env AuthGetUser \<Longrightarrow>
   snd (handleAddComment post newComment env) = Returns
   \<and> ((\<exists>r \<in> set (awaited (fst (handleAddComment post newComment env))). rejects env r) \<longrightarrow>
        Toast ''Error'' ''Failed to add comment'' Destructive
          \<in> set (fst (handleAddComment post newComment env)))"
  by (auto simp: handleAddComment_def await_def try_catch_def rejects_def Let_def
           split: promise.splits option.splits)

lemma handleTogglePin_catches:
  "\<not> rejects env AuthGetUser \<Longrightarrow>
   snd (handleTogglePin post isPinned env) = Returns
   \<and> ((\<exists>r \<in> set (awaited (fst (handleTogglePin post isPinned env))). rejects env r) \<longrightarrow>
        Toast ''Error'' ''Failed to update pin status'' Destructive
          \<in> set (fst (handleTogglePin post isPinned env)))"
  by (auto simp: handleTogglePin_def await_def try_catch_def rejects_def
           split: promise.splits option.splits)

lemma getUser_rejection_propagates:
  "env AuthGetUser = Rejects e \<Longrightarrow>
   handleLike post isLiked env = ([Await AuthGetUser], Throws e)
   \<and> handleTogglePin post isPinned env = ([Await AuthGetUser], Throws e)
   \<and> (trim newComment \<noteq> [] \<longrightarrow> handleAddComment post newComment env = ([Await AuthGetUser], Throws e))"
  by (simp add: handleLike_def handleTogglePin_def handleAddComment_def)

text \<open>
  The calls inside the \<open>try\<close> blocks. \<open>handleDeleteComment\<close> and \<open>handleDeletePost\<close>
  always complete normally, and when a call they await rejects they show the destructive
  toast of the handler. \<open>handleLike\<close>, \<open>handleAddComment\<close> and \<open>handleTogglePin\<close> do the
  same whenever their first call \<open>auth.getUser()\<close>, which stands before the \<open>try\<close> block,
  does not reject; when it rejects, the handler shows no toast and its promise rejects
  with the error.
\<close>

proposition calls_in_try_blocks_are_caught:
  "(snd (handleDeleteComment commentId env) = Returns
    \<and> ((\<exists>r \<in> set (awaited (fst (handleDeleteComment commentId env))). rejects env r) \<longrightarrow>
         Toast ''Error'' ''Failed to delete comment'' Destructive
           \<in> set (fst (handleDeleteComment commentId env))))
   \<and> (snd (handleDeletePost post onPostDeleted env) = Returns
    \<and> ((\<exists>r \<in> set (awaited (fst (handleDeletePost post onPostDeleted env))). rejects env r) \<longrightarrow>
         Toast ''Error'' ''Failed to delete post'' Destructive
           \<in> set (fst (handleDeletePost post onPostDeleted env))))
   \<and> (\<not> rejects env AuthGetUser \<longrightarrow>
        snd (handleLike post isLiked env) = Returns
        \<and> ((\<exists>r \<in> set (awaited (fst (handleLike post isLiked env))). rejects env r) \<longrightarrow>
             Toast ''Error'' ''Failed to update like'' Destructive
               \<in> set (fst (handleLike post isLiked env))))
   \<and> (\<not> rejects env AuthGetUser \<longrightarrow>
        snd (handleAddComment post newComment env) = Returns
        \<and> ((\<exists>r \<in> set (awaited (fst (handleAddComment post newComment env))). rejects env r) \<longrightarrow>
             Toast ''Error'' ''Failed to add comment'' Destructive
               \<in> set (fst (handleAddComment post newComment env))))
   \<and> (\<not> rejects env AuthGetUser \<longrightarrow>
        snd (handleTogglePin post isPinned env) = Returns
        \<and> ((\<exists>r \<in> set (awaited (fst (handleTogglePin post isPinned env))). rejects env r) \<longrightarrow>
             Toast ''Error'' ''Failed to update pin status'' Destructive
               \<in> set (fst (handleTogglePin post isPinned env))))
   \<and> (env AuthGetUser = Rejects e \<longrightarrow>
        handleLike post isLiked env = ([Await AuthGetUser], Throws e)
        \<and> handleTogglePin post isPinned env = ([Await AuthGetUser], Throws e)
        \<and> (trim newComment \<noteq> [] \<longrightarrow>
             handleAddComment post newComment env = ([Await AuthGetUser], Throws e)))"
  using handleDeleteComment_catches [of commentId env]
    handleDeletePost_catches [of post onPostDeleted env]
    handleLike_catches [of env post isLiked]
    handleAddComment_catches [of env post newComment]
    handleTogglePin_catches [of env post isPinned]
    getUser_rejection_propagates [of env e post isLiked isPinned newComment]
  by blast

proposition calls_in_try_blocks_are_caught_example:
  "\<not> rejects (\<lambda>r. case r of AuthGetUser \<Rightarrow> Resolves \<lparr>reply_data = Some ''u2'', reply_error = None\<rparr>
                     | _ \<Rightarrow> Rejects ''Failed to fetch'') AuthGetUser
   \<and> rejects (\<lambda>r. case r of AuthGetUser \<Rightarrow> Resolves \<lparr>reply_data = Some ''u2'', reply_error = None\<rparr>
                     | _ \<Rightarrow> Rejects ''Failed to fetch'') (LikesInsert ''p1'' ''u2'')
   \<and> handleLike \<lparr>feed_id = ''p1'', authorId = ''u1'', content_url = None\<rparr> False (\<lambda>r. case r of AuthGetUser \<Rightarrow> Resolves \<lparr>reply_data = Some ''u2'', reply_error = None\<rparr>
                     | _ \<Rightarrow> Rejects ''Failed to fetch'')
       = ([Await AuthGetUser, Await (LikesInsert ''p1'' ''u2''),
           ConsoleError ''Error toggling like:'' ''Failed to fetch'',
           Toast ''Error'' ''Failed to update like'' Destructive], Returns)
   \<and> handleDeletePost \<lparr>feed_id = ''p1'', authorId = ''u1'', content_url = None\<rparr> True (\<lambda>r. case r of AuthGetUser \<Rightarrow> Resolves \<lparr>reply_data = Some ''u2'', reply_error = None\<rparr>
                     | _ \<Rightarrow> Rejects ''Failed to fetch'')
       = ([SetDeleting True, Await (PostsDelete ''p1''),
           ConsoleError ''Error deleting post:'' ''Failed to fetch'',
           Toast ''Error'' ''Failed to delete post'' Destructive,
           SetDeleting False, SetShowDeleteDialog False], Returns)
   \<and> handleTogglePin \<lparr>feed_id = ''p1'', authorId = ''u1'', content_url = None\<rparr> True (\<lambda>r. Rejects ''Failed to fetch'')
       = ([Await AuthGetUser], Throws ''Failed to fetch'')"
  using
    calls_in_try_blocks_are_caught [where env = "(\<lambda>r. case r of AuthGetUser \<Rightarrow> Resolves \<lparr>reply_data = Some ''u2'', reply_error = None\<rparr>
                     | _ \<Rightarrow> Rejects ''Failed to fetch'')" and post = "\<lparr>feed_id = ''p1'', authorId = ''u1'', content_url = None\<rparr>"
      and isLiked = False and onPostDeleted = True and commentId = "''c1''" and newComment = "''hi''"
      and isPinned = True and e = "''x''"]
    calls_in_try_blocks_are_caught [where env = "\<lambda>r. Rejects ''Failed to fetch''" and post = "\<lparr>feed_id = ''p1'', authorId = ''u1'', content_url = None\<rparr>"
      and isLiked = False and onPostDeleted = True and commentId = "''c1''" and newComment = "''hi''"
      and isPinned = True and e = "''Failed to fetch''"]
  by (simp add: rejects_def handleLike_def handleDeletePost_def handleTogglePin_def await_def
        try_catch_def or_else_def)

text \<open>
  Claim C6 asks that every rejection of a backend call inside \<open>handleLike\<close>,
  \<open>handleAddComment\<close>, \<open>handleDeleteComment\<close>, \<open>handleDeletePost\<close> or \<open>handleTogglePin\<close>
  is caught, shown as a destructive toast and swallowed. \<open>handleLike\<close> does not do so for
  its first backend call: when \<open>auth.getUser()\<close> rejects, the handler awaits nothing
  else, shows no toast, and throws the error. (\<open>handleAddComment\<close> and \<open>handleTogglePin\<close>
  share the defect; the publish and profile handlers of the other components call
  \<open>auth.getUser()\<close> inside their \<open>try\<close> block.)
\<close>

theorem handleLike_getUser_rejection_uncaught:
  "handleLike \<lparr>feed_id = ''p1'', authorId = ''u1'', content_url = None\<rparr> False
       (\<lambda>r. Rejects ''Failed to fetch'')
     = ([Await AuthGetUser], Throws ''Failed to fetch'')
   \<and> rejects (\<lambda>r. Rejects ''Failed to fetch'') AuthGetUser"
  by (simp add: handleLike_def rejects_def)

subsection \<open>Notifications of likes and comments\<close>

lemma handleLike_notifies:
  assumes "env AuthGetUser = Resolves u" "reply_data u = Some user_id"
    "env (LikesInsert (feed_id post) user_id) = Resolves r1"
    "env (ProfilesSelectDisplayName user_id) = Resolves profile"
  shows "notificationInserts (fst (handleLike post False env)) =
       (if user_id \<noteq> authorId post
        then [\<lparr>notif_user_id = authorId post, notif_type = ''like'', notif_title = ''New Like'',
               notif_message = or_else (reply_data profile) ''Someone'' @ '' liked your post'',
               notif_actor_id = Some user_id, notif_post_id = Some (feed_id post)\<rparr>]
        else [])"
  using assms
  by (auto simp: handleLike_def await_def try_catch_def split: promise.splits option.splits)

lemma handleAddComment_notifies:
  assumes "env AuthGetUser = Resolves u" "reply_data u = Some user_id"
    "trim newComment \<noteq> []"
    "env (CommentsInsert (feed_id post) user_id (trim newComment)) = Resolves r1"
    "reply_error r1 = None"
    "env (ProfilesSelectDisplayName user_id) = Resolves profile"
  shows "notificationInserts (fst (handleAddComment post newComment env)) =
       (if user_id \<noteq> authorId post
        then [\<lparr>notif_user_id = authorId post, notif_type = ''comment'', notif_title = ''New Comment'',
               notif_message = or_else (reply_data profile) ''Someone'' @ '' commented on your post'',
               notif_actor_id = Some user_id, notif_post_id = Some (feed_id post)\<rparr>]
        else [])"
  using assms
  by (auto simp: handleAddComment_def await_def try_catch_def Let_def split: promise.splits option.splits)

lemma handleLike_only_others:
  "n \<in> set (notificationInserts (fst (handleLike post isLiked env))) \<Longrightarrow>
   notif_user_id n = authorId post \<and> notif_type n = ''like''
   \<and> (\<exists>user_id. notif_actor_id n = Some user_id \<and> user_id \<noteq> authorId post)"
  by (auto simp: handleLike_def await_def try_catch_def split: promise.splits option.splits if_splits)

lemma handleAddComment_only_others:
  "n \<in> set (notificationInserts (fst (handleAddComment post newComment env))) \<Longrightarrow>
   notif_user_id n = authorId post \<and> notif_type n = ''comment''
   \<and> (\<exists>user_id. notif_actor_id n = Some user_id \<and> user_id \<noteq> authorId post)"
  by (auto simp: handleAddComment_def await_def try_catch_def Let_def split: promise.splits option.splits if_splits)

lemma self_like_silent:
  "env AuthGetUser = Resolves u \<Longrightarrow> reply_data u = Some (authorId post) \<Longrightarrow>
   notificationInserts (fst (handleLike post isLiked env)) = []
   \<and> notificationInserts (fst (handleAddComment post newComment env)) = []"
  by (auto simp: handleLike_def handleAddComment_def await_def try_catch_def Let_def split: promise.splits option.splits)

text \<open>
  Claim C8. In \<open>handleLike\<close> and \<open>handleAddComment\<close>, for a logged-in user: when the like
  (the post was not liked before) or the comment is inserted and the profile query
  resolves, the handler sends one row to \<open>notifications\<close>, of type \<open>like\<close> or
  \<open>comment\<close>, addressed to the author of the post and naming the user as actor, if the
  id of the user differs from \<open>authorId\<close>, and no row if they are equal. Whatever the
  calls return, every row that these handlers send to \<open>notifications\<close> is addressed to
  the author by another user, and a user acting on a post of their own sends none.
\<close>

theorem self_actions_create_no_notification:
  "(env AuthGetUser = Resolves u \<and> reply_data u = Some user_id
      \<and> env (LikesInsert (feed_id post) user_id) = Resolves likeReply
      \<and> env (ProfilesSelectDisplayName user_id) = Resolves profile \<longrightarrow>
      notificationInserts (fst (handleLike post False env)) =
        (if user_id \<noteq> authorId post
         then [\<lparr>notif_user_id = authorId post, notif_type = ''like'', notif_title = ''New Like'',
                notif_message = or_else (reply_data profile) ''Someone'' @ '' liked your post'',
                notif_actor_id = Some user_id, notif_post_id = Some (feed_id post)\<rparr>]
         else []))
   \<and> (env AuthGetUser = Resolves u \<and> reply_data u = Some user_id
      \<and> trim newComment \<noteq> []
      \<and> env (CommentsInsert (feed_id post) user_id (trim newComment)) = Resolves commentReply
      \<and> reply_error commentReply = None
      \<and> env (ProfilesSelectDisplayName user_id) = Resolves profile \<longrightarrow>
      notificationInserts (fst (handleAddComment post newComment env)) =
        (if user_id \<noteq> authorId post
         then [\<lparr>notif_user_id = authorId post, notif_type = ''comment'', notif_title = ''New Comment'',
                notif_message = or_else (reply_data profile) ''Someone'' @ '' commented on your post'',
                notif_actor_id = Some user_id, notif_post_id = Some (feed_id post)\<rparr>]
         else []))
   \<and> (\<forall>n \<in> set (notificationInserts (fst (handleLike post isLiked env))).
        notif_user_id n = authorId post \<and> notif_type n = ''like''
        \<and> (\<exists>a. notif_actor_id n = Some a \<and> a \<noteq> authorId post))
   \<and> (\<forall>n \<in> set (notificationInserts (fst (handleAddComment post newComment env))).
        notif_user_id n = authorId post \<and> notif_type n = ''comment''
        \<and> (\<exists>a. notif_actor_id n = Some a \<and> a \<noteq> authorId post))
   \<and> (env AuthGetUser = Resolves u \<and> reply_data u = Some (authorId post) \<longrightarrow>
        notificationInserts (fst (handleLike post isLiked env)) = []
        \<and> notificationInserts (fst (handleAddComment post newComment env)) = [])"
  using handleLike_notifies [of env u user_id post likeReply profile]
    handleAddComment_notifies [of env u user_id newComment post commentReply profile]
    handleLike_only_others [of _ post isLiked env]
    handleAddComment_only_others [of _ post newComment env]
    self_like_silent [of env u post isLiked newComment]
  by blast

theorem self_actions_create_no_notification_witness:
  "notificationInserts (fst (handleLike \<lparr>feed_id = ''p1'', authorId = ''u1'', content_url = None\<rparr> False (\<lambda>r. case r of AuthGetUser \<Rightarrow> Resolves \<lparr>reply_data = Some ''u2'', reply_error = None\<rparr>
                     | ProfilesSelectDisplayName x \<Rightarrow> Resolves \<lparr>reply_data = Some ''Bo'', reply_error = None\<rparr>
                     | _ \<Rightarrow> Resolves \<lparr>reply_data = None, reply_error = None\<rparr>)))
     = [\<lparr>notif_user_id = ''u1'', notif_type = ''like'', notif_title = ''New Like'',
          notif_message = ''Bo liked your post'',
          notif_actor_id = Some ''u2'', notif_post_id = Some ''p1''\<rparr>]
   \<and> notificationInserts (fst (handleAddComment \<lparr>feed_id = ''p1'', authorId = ''u1'', content_url = None\<rparr> '' hi '' (\<lambda>r. case r of AuthGetUser \<Rightarrow> Resolves \<lparr>reply_data = Some ''u2'', reply_error = None\<rparr>
                     | ProfilesSelectDisplayName x \<Rightarrow> Resolves \<lparr>reply_data = Some ''Bo'', reply_error = None\<rparr>
                     | _ \<Rightarrow> Resolves \<lparr>reply_data = None, reply_error = None\<rparr>)))
     = [\<lparr>notif_user_id = ''u1'', notif_type = ''comment'', notif_title = ''New Comment'',
          notif_message = ''Bo commented on your post'',
          notif_actor_id = Some ''u2'', notif_post_id = Some ''p1''\<rparr>]
   \<and> notificationInserts (fst (handleLike \<lparr>feed_id = ''p2'', authorId = ''u2'', content_url = None\<rparr> False (\<lambda>r. case r of AuthGetUser \<Rightarrow> Resolves \<lparr>reply_data = Some ''u2'', reply_error = None\<rparr>
                     | ProfilesSelectDisplayName x \<Rightarrow> Resolves \<lparr>reply_data = Some ''Bo'', reply_error = None\<rparr>
                     | _ \<Rightarrow> Resolves \<lparr>reply_data = None, reply_error = None\<rparr>))) = []
   \<and> notificationInserts (fst (handleAddComment \<lparr>feed_id = ''p2'', authorId = ''u2'', content_url = None\<rparr> '' hi '' (\<lambda>r. case r of AuthGetUser \<Rightarrow> Resolves \<lparr>reply_data = Some ''u2'', reply_error = None\<rparr>
                     | ProfilesSelectDisplayName x \<Rightarrow> Resolves \<lparr>reply_data = Some ''Bo'', reply_error = None\<rparr>
                     | _ \<Rightarrow> Resolves \<lparr>reply_data = None, reply_error = None\<rparr>))) = []"
  using
    self_actions_create_no_notification [where env = "(\<lambda>r. case r of AuthGetUser \<Rightarrow> Resolves \<lparr>reply_data = Some ''u2'', reply_error = None\<rparr>
                     | ProfilesSelectDisplayName x \<Rightarrow> Resolves \<lparr>reply_data = Some ''Bo'', reply_error = None\<rparr>
                     | _ \<Rightarrow> Resolves \<lparr>reply_data = None, reply_error = None\<rparr>)" and post = "\<lparr>feed_id = ''p1'', authorId = ''u1'', content_url = None\<rparr>"
      and u = "\<lparr>reply_data = Some ''u2'', reply_error = None\<rparr>" and user_id = "''u2''"
      and likeReply = "\<lparr>reply_data = None, reply_error = None\<rparr>"
      and commentReply = "\<lparr>reply_data = None, reply_error = None\<rparr>"
      and profile = "\<lparr>reply_data = Some ''Bo'', reply_error = None\<rparr>"
      and newComment = "'' hi ''" and isLiked = False]
    self_actions_create_no_notification [where env = "(\<lambda>r. case r of AuthGetUser \<Rightarrow> Resolves \<lparr>reply_data = Some ''u2'', reply_error = None\<rparr>
                     | ProfilesSelectDisplayName x \<Rightarrow> Resolves \<lparr>reply_data = Some ''Bo'', reply_error = None\<rparr>
                     | _ \<Rightarrow> Resolves \<lparr>reply_data = None, reply_error = None\<rparr>)" and post = "\<lparr>feed_id = ''p2'', authorId = ''u2'', content_url = None\<rparr>"
      and u = "\<lparr>reply_data = Some ''u2'', reply_error = None\<rparr>" and user_id = "''u2''"
      and likeReply = "\<lparr>reply_data = None, reply_error = None\<rparr>"
      and commentReply = "\<lparr>reply_data = None, reply_error = None\<rparr>"
      and profile = "\<lparr>reply_data = Some ''Bo'', reply_error = None\<rparr>"
      and newComment = "'' hi ''" and isLiked = False]
  by (simp add: handleLike_def handleAddComment_def await_def try_catch_def or_else_def
        trim_def whiteSpace_def)

end
